theory Spec2Isabelle
  imports Main "HOL-Library.AList"
begin

unbundle bit_operations_syntax

section \<open>Python values used by the wallet manager\<close>

text \<open>
  A shallow embedding of \<^verbatim>\<open>src/apps/wallets/manager.py\<close> (class WalletManager).
  Python \<^verbatim>\<open>bytes\<close> are lists of 8-bit characters, and a \<^verbatim>\<open>str\<close> is held as the bytes of its
  UTF-8 encoding, so \<^verbatim>\<open>.encode()\<close> is the identity and \<^verbatim>\<open>.decode()\<close> on received bytes either
  returns them or raises.  A Python exception is a class name with its \<^verbatim>\<open>args\<close> tuple, and a
  function that may raise returns \<open>exn + 'a\<close>.
\<close>

type_synonym bytes = "char list"

datatype pyarg = AStr string | AInt int

datatype exn = Exn (exn_class: string) (exn_args: "pyarg list")

definition WalletError :: "string \<Rightarrow> exn" where
  "WalletError msg = Exn ''WalletError'' [AStr msg]"

definition NameError :: "string \<Rightarrow> exn" where
  "NameError msg = Exn ''NameError'' [AStr msg]"

definition UnboundLocalError :: "string \<Rightarrow> exn" where
  "UnboundLocalError msg = Exn ''UnboundLocalError'' [AStr msg]"

definition IndexError :: "string \<Rightarrow> exn" where
  "IndexError msg = Exn ''IndexError'' [AStr msg]"

definition KeyError :: "pyarg \<Rightarrow> exn" where
  "KeyError k = Exn ''KeyError'' [k]"

definition ValueError :: "string \<Rightarrow> exn" where
  "ValueError msg = Exn ''ValueError'' [AStr msg]"

definition TypeError :: "string \<Rightarrow> exn" where
  "TypeError msg = Exn ''TypeError'' [AStr msg]"

definition AttributeError :: "string \<Rightarrow> exn" where
  "AttributeError msg = Exn ''AttributeError'' [AStr msg]"

definition AssertionError :: exn where
  "AssertionError = Exn ''AssertionError'' []"

text \<open>A \<^verbatim>\<open>for\<close> loop whose body may raise, threading the loop's state.\<close>

fun for_loop :: "('a \<Rightarrow> 's \<Rightarrow> exn + 's) \<Rightarrow> 'a list \<Rightarrow> 's \<Rightarrow> exn + 's" where
  "for_loop body [] s = Inr s"
| "for_loop body (x # xs) s =
     (case body x s of Inl e \<Rightarrow> Inl e | Inr s' \<Rightarrow> for_loop body xs s')"

text \<open>\<^verbatim>\<open>enumerate(xs)\<close>.\<close>

definition enumerate_list :: "'a list \<Rightarrow> (nat \<times> 'a) list" where
  "enumerate_list xs = zip [0..<length xs] xs"

text \<open>A Python \<^verbatim>\<open>dict\<close> is an association list in insertion order; \<^verbatim>\<open>d[k] = v\<close> is
  \<open>AList.update\<close> (an existing key keeps its place, a new key goes last).\<close>

type_synonym ('k, 'v) dict = "('k \<times> 'v) list"

subsection \<open>binascii.hexlify and binascii.unhexlify\<close>

definition hex_char :: "nat \<Rightarrow> char" where
  "hex_char n = ''0123456789abcdef'' ! n"

definition hexlify :: "bytes \<Rightarrow> string" where
  "hexlify bs = concat (map (\<lambda>b. [hex_char (of_char b div 16), hex_char (of_char b mod 16)]) bs)"

definition hex_val :: "char \<Rightarrow> nat option" where
  "hex_val c =
     (let n = (of_char c :: nat) in
      if 48 \<le> n \<and> n \<le> 57 then Some (n - 48)
      else if 97 \<le> n \<and> n \<le> 102 then Some (n - 87)
      else if 65 \<le> n \<and> n \<le> 70 then Some (n - 55)
      else None)"

fun unhex_pairs :: "string \<Rightarrow> exn + bytes" where
  "unhex_pairs (c # d # rest) =
     (case (hex_val c, hex_val d) of
        (Some h, Some l) \<Rightarrow>
          (case unhex_pairs rest of Inl e \<Rightarrow> Inl e | Inr bs \<Rightarrow> Inr (char_of (16 * h + l) # bs))
      | _ \<Rightarrow> Inl (ValueError ''non-hex digit found''))"
| "unhex_pairs _ = Inr []"

definition unhexlify :: "string \<Rightarrow> exn + bytes" where
  "unhexlify s =
     (if odd (length s) then Inl (ValueError ''odd-length string'') else unhex_pairs s)"

section \<open>The asset registry\<close>

text \<open>
  The part of the manager's state the asset flows use: \<^verbatim>\<open>self.root_path\<close>,
  \<^verbatim>\<open>self.network\<close>, \<^verbatim>\<open>self.keystore.uid\<close> and the \<^verbatim>\<open>assets\<close> dictionary (asset id to label).
\<close>

record manager =
  root_path :: string
  network :: string
  keystore_uid :: string
  assets :: "(bytes, string) dict"

text \<open>
  The keystore's authenticated storage, \<^verbatim>\<open>save_aead(path, plaintext, key)\<close> and
  \<^verbatim>\<open>load_aead(path, key)\<close>, is a store from paths to what was saved there.  The JSON text
  that \<^verbatim>\<open>json.dumps\<close> writes and \<^verbatim>\<open>json.loads\<close> reads back is kept as the object it denotes,
  a dictionary from strings to strings.
\<close>

type_synonym json_obj = "(string, string) dict"

type_synonym storage = "string \<rightharpoonup> json_obj"

text \<open>\<^verbatim>\<open>assets_json\<close> (lines 455-460).\<close>

definition assets_json :: "(bytes, string) dict \<Rightarrow> json_obj" where
  "assets_json d = fold (\<lambda>(asset, lbl) js. AList.update (hexlify (rev asset)) lbl js) d []"

text \<open>The path \<^verbatim>\<open>save_assets\<close> writes (lines 463 and 466) and the path \<^verbatim>\<open>load_assets\<close>
  reads (lines 469, 471 and 472).\<close>

definition save_assets_path :: "manager \<Rightarrow> string" where
  "save_assets_path m = (root_path m @ ''/uid'' @ keystore_uid m) @ ''/'' @ network m"

definition load_assets_path :: "manager \<Rightarrow> string" where
  "load_assets_path m = (root_path m @ ''/'' @ keystore_uid m) @ ''/'' @ network m"

text \<open>\<^verbatim>\<open>save_assets\<close> (lines 462-466).\<close>

definition save_assets :: "manager \<Rightarrow> storage \<Rightarrow> storage" where
  "save_assets m fs = fs(save_assets_path m \<mapsto> assets_json (assets m))"

text \<open>\<^verbatim>\<open>load_assets\<close> (lines 468-476): nothing happens when the file does not exist;
  otherwise every entry of the stored object is written into \<^verbatim>\<open>self.assets\<close>.\<close>

definition load_entry :: "string \<times> string \<Rightarrow> (bytes, string) dict \<Rightarrow> exn + (bytes, string) dict" where
  "load_entry = (\<lambda>(asset, lbl) d.
     case unhexlify asset of Inl e \<Rightarrow> Inl e | Inr bs \<Rightarrow> Inr (AList.update (rev bs) lbl d))"

definition load_assets :: "manager \<Rightarrow> storage \<Rightarrow> exn + manager" where
  "load_assets m fs =
     (case fs (load_assets_path m) of
        None \<Rightarrow> Inr m
      | Some js \<Rightarrow>
          (case for_loop load_entry js (assets m) of
             Inl e \<Rightarrow> Inl e
           | Inr d \<Rightarrow> Inr (m\<lparr>assets := d\<rparr>)))"

text \<open>The class attribute \<^verbatim>\<open>assets\<close> (lines 79-81).\<close>

definition default_assets :: "(bytes, string) dict" where
  "default_assets =
     [(rev (case unhexlify ''230164e2d3ff2c88cc0739e56a3501c979fe131fd07944e8a609323ef26c6918'' of
              Inr bs \<Rightarrow> bs | Inl _ \<Rightarrow> []), ''tBTC'')]"

subsection \<open>Streams\<close>

text \<open>A readable stream: its bytes and the read position.  \<^verbatim>\<open>read(n)\<close> returns at most
  \<open>n\<close> bytes and advances; \<^verbatim>\<open>read()\<close> returns the rest; \<^verbatim>\<open>seek(k)\<close> sets the position.\<close>

record stream =
  content :: bytes
  pos :: nat


definition read_all :: "stream \<Rightarrow> bytes \<times> stream" where
  "read_all s =
     (let d = drop (pos s) (content s) in (d, s\<lparr>pos := pos s + length d\<rparr>))"


definition BytesIO :: "bytes \<Rightarrow> stream" where
  "BytesIO b = \<lparr>content = b, pos = 0\<rparr>"

text \<open>\<^verbatim>\<open>s.split(" ")\<close>: a split at every occurrence of a one-character separator.\<close>

fun split_on :: "char \<Rightarrow> string \<Rightarrow> string list" where
  "split_on c [] = [[]]"
| "split_on c (x # xs) =
     (if x = c then [] # split_on c xs
      else (case split_on c xs of [] \<Rightarrow> [[x]] | w # ws \<Rightarrow> (x # w) # ws))"

subsection \<open>Decoding bytes to text\<close>

text \<open>
  \<^verbatim>\<open>bytes.decode()\<close> with the default codec: the bytes must be well-formed UTF-8 (no stray or
  missing continuation byte, no overlong form, no surrogate, nothing above U+10FFFF),
  otherwise the call raises.  \<open>utf8_valid\<close> works on the byte values.
\<close>

definition utf8_cont :: "nat \<Rightarrow> bool" where
  "utf8_cont b = (0x80 \<le> b \<and> b \<le> 0xBF)"

fun utf8_valid :: "nat list \<Rightarrow> bool" where
  "utf8_valid [] = True"
| "utf8_valid (a # rest) =
     (if a < 0x80 then utf8_valid rest
      else if 0xC2 \<le> a \<and> a \<le> 0xDF then
        (case rest of
           b # r \<Rightarrow> utf8_cont b \<and> utf8_valid r
         | _ \<Rightarrow> False)
      else if 0xE0 \<le> a \<and> a \<le> 0xEF then
        (case rest of
           b # c # r \<Rightarrow>
             (if a = 0xE0 then 0xA0 \<le> b \<and> b \<le> 0xBF
              else if a = 0xED then 0x80 \<le> b \<and> b \<le> 0x9F
              else utf8_cont b)
             \<and> utf8_cont c \<and> utf8_valid r
         | _ \<Rightarrow> False)
      else if 0xF0 \<le> a \<and> a \<le> 0xF4 then
        (case rest of
           b # c # d # r \<Rightarrow>
             (if a = 0xF0 then 0x90 \<le> b \<and> b \<le> 0xBF
              else if a = 0xF4 then 0x80 \<le> b \<and> b \<le> 0x8F
              else utf8_cont b)
             \<and> utf8_cont c \<and> utf8_cont d \<and> utf8_valid r
         | _ \<Rightarrow> False)
      else False)"

definition UnicodeError :: exn where
  "UnicodeError = Exn ''UnicodeError'' []"

definition utf8_decode :: "bytes \<Rightarrow> exn + string" where
  "utf8_decode b = (if utf8_valid (map of_char b) then Inr b else Inl UnicodeError)"

section \<open>The asset flows of \<^verbatim>\<open>process_host_command\<close>\<close>

text \<open>
  The \<^verbatim>\<open>ADD_ASSET\<close> branch (lines 276-286).  \<open>str_decode\<close> is the \<^verbatim>\<open>.decode()\<close> of line 277,
  which raises on bytes that are no text, before anything is stored; \<open>confirm\<close> is the
  user's answer to the \<^verbatim>\<open>Import asset?\<close> prompt.  The result is the reply stream with the
  manager and the storage as the branch leaves them.
\<close>

definition add_asset ::
    "(bytes \<Rightarrow> exn + string) \<Rightarrow> bool \<Rightarrow> stream \<Rightarrow> manager \<Rightarrow> storage
      \<Rightarrow> exn + (stream \<times> manager \<times> storage)" where
  "add_asset str_decode confirm s m fs =
     (case str_decode (fst (read_all s)) of
        Inl e \<Rightarrow> Inl e
      | Inr text \<Rightarrow>
          (case split_on CHR '' '' text of
             [hexasset, assetlbl] \<Rightarrow>
               (if confirm then
                  (case unhexlify hexasset of
                     Inl e \<Rightarrow> Inl e
                   | Inr bs \<Rightarrow>
                       (let m' = m\<lparr>assets := AList.update (rev bs) assetlbl (assets m)\<rparr>
                        in Inr (BytesIO ''success'', m', save_assets m' fs)))
                else Inr (BytesIO ''success'', m, fs))
           | _ \<Rightarrow> Inl (WalletError
               ''Invalid number of arguments. Usage: addasset <hex_asset> asset_lbl'')))"

text \<open>The \<^verbatim>\<open>DUMP_ASSETS\<close> branch (lines 287-288): the reply is the JSON object of
  \<^verbatim>\<open>assets_json\<close>.\<close>

definition dump_assets :: "manager \<Rightarrow> json_obj" where
  "dump_assets m = assets_json (assets m)"

text \<open>The two host commands in sequence: an \<^verbatim>\<open>addasset\<close> request, then a \<^verbatim>\<open>dumpassets\<close>
  request on the manager the first one leaves.\<close>

definition add_then_dump ::
    "(bytes \<Rightarrow> exn + string) \<Rightarrow> bool \<Rightarrow> stream \<Rightarrow> manager \<Rightarrow> storage \<Rightarrow> exn + json_obj" where
  "add_then_dump str_decode confirm s m fs =
     (case add_asset str_decode confirm s m fs of
        Inl e \<Rightarrow> Inl e
      | Inr (reply, m', fs') \<Rightarrow> Inr (dump_assets m'))"

text \<open>The digits \<^verbatim>\<open>hexlify\<close> writes.\<close>

definition lower_hex :: "char \<Rightarrow> bool" where
  "lower_hex c = (c \<in> set ''0123456789abcdef'')"

section \<open>Request classification: \<^verbatim>\<open>parse_stream\<close>\<close>

definition BASE64_STREAM :: int where "BASE64_STREAM = 0x64"
definition RAW_STREAM :: int where "RAW_STREAM = 0xFF"

text \<open>
  What \<^verbatim>\<open>parse_stream\<close> calls and this file does not hold: \<^verbatim>\<open>BaseApp.get_prefix\<close> (the
  prefix it finds, if any, and the stream as it leaves it), \<^verbatim>\<open>helpers.is_liquid\<close>,
  \<^verbatim>\<open>binascii.a2b_base64\<close> and the magic bytes of the two containers.
\<close>

record runtime =
  get_prefix :: "stream \<Rightarrow> bytes option \<times> stream"
  is_liquid :: "string \<Rightarrow> bool"
  a2b_base64 :: "bytes \<Rightarrow> exn + bytes"
  PSBT_MAGIC :: bytes
  PSET_MAGIC :: bytes




subsection \<open>The base64 decoder of the device's runtime\<close>

text \<open>
  \<^verbatim>\<open>binascii.a2b_base64\<close> as MicroPython implements it: a character outside the base64
  alphabet is skipped, every character of the alphabet adds six bits, a byte is written
  as soon as eight bits are there, and the call raises \<^verbatim>\<open>ValueError\<close> only when bits are
  left over at the end.  The state is the bits not yet written (\<open>shift\<close>, \<open>nbits\<close>),
  whether a pad character came since the last valid one, and the output so far.
\<close>

definition sextet :: "char \<Rightarrow> nat option" where
  "sextet c =
     (let n = (of_char c :: nat) in
      if 65 \<le> n \<and> n \<le> 90 then Some (n - 65)
      else if 97 \<le> n \<and> n \<le> 122 then Some (n - 97 + 26)
      else if 48 \<le> n \<and> n \<le> 57 then Some (n - 48 + 52)
      else if c = CHR ''+'' then Some 62
      else if c = CHR ''/'' then Some 63
      else None)"

fun b64_loop :: "bytes \<Rightarrow> nat \<Rightarrow> nat \<Rightarrow> bool \<Rightarrow> bytes \<Rightarrow> exn + bytes" where
  "b64_loop [] shift nbits hadpad out =
     (if nbits \<noteq> 0 then Inl (ValueError ''incorrect padding'') else Inr out)"
| "b64_loop (c # cs) shift nbits hadpad out =
     (if c = CHR ''='' \<and> (nbits = 2 \<or> (nbits = 4 \<and> hadpad)) then Inr out
      else
        (case sextet c of
           None \<Rightarrow> b64_loop cs shift nbits (hadpad \<or> c = CHR ''='') out
         | Some v \<Rightarrow>
             (let shift' = shift * 64 + v; nbits' = nbits + 6 in
              if nbits' \<ge> 8
              then b64_loop cs (shift' mod 2 ^ (nbits' - 8)) (nbits' - 8) False
                     (out @ [char_of (shift' div 2 ^ (nbits' - 8))])
              else b64_loop cs shift' nbits' False out)))"

definition a2b_base64_upy :: "bytes \<Rightarrow> exn + bytes" where
  "a2b_base64_upy data = b64_loop data 0 0 False []"

section \<open>The transaction container and wallets\<close>

text \<open>
  The fields of \<^verbatim>\<open>PSBT\<close>/\<^verbatim>\<open>PSET\<close> objects that the manager reads or writes.  A transaction
  output (\<^verbatim>\<open>psbt.tx.vout[i]\<close>, a previous output): the bytes of its script, its value and, on
  a confidential network, its asset field.
\<close>

record txout =
  script_pubkey :: bytes
  amount :: int
  asset :: bytes

type_synonym derivations = "(bytes, bytes \<times> nat list) dict"

record psbt_in =
  is_verified :: bool
  witness_utxo :: "txout option"
  non_witness_utxo :: "txout list option"
  sighash_type :: "int option"
  partial_sigs :: "(bytes, bytes) dict"
  bip32_derivations :: derivations
  witness_script :: "bytes option"
  redeem_script :: "bytes option"
  inp_value :: int
  inp_asset :: bytes

record psbt_out =
  unknown :: "(bytes, bytes) dict"
  range_proof :: "bytes option"
  surjection_proof :: "bytes option"
  blinding_pubkey :: "bytes option"
  nonce_commitment :: "bytes option"
  out_bip32_derivations :: derivations
  out_witness_script :: "bytes option"
  out_redeem_script :: "bytes option"

record psbt =
  vout :: "txout list"
  inputs :: "psbt_in list"
  outputs :: "psbt_out list"
  hash_outputs_rangeproofs :: "bytes option"

section \<open>Decoding the container in \<^verbatim>\<open>sign_psbt\<close>\<close>

text \<open>
  What the decoding step calls: \<^verbatim>\<open>helpers.a2b_base64_stream\<close> (the decoded bytes it writes to
  the scratch file) and \<^verbatim>\<open>PSBTClass.read_from\<close>, for the class the network selects
  (\<open>True\<close>: \<^verbatim>\<open>PSET\<close>).
\<close>

record codec =
  a2b_base64_stream :: "stream \<Rightarrow> exn + bytes"
  read_from :: "bool \<Rightarrow> stream \<Rightarrow> exn + psbt"

text \<open>The body of the \<^verbatim>\<open>try\<close> (lines 298-307).\<close>

definition try_decode :: "codec \<Rightarrow> bool \<Rightarrow> int \<Rightarrow> stream \<Rightarrow> exn + psbt" where
  "try_decode C liquid encoding stream =
     (if encoding = BASE64_STREAM then
        (case a2b_base64_stream C stream of
           Inl e \<Rightarrow> Inl e
         | Inr raw \<Rightarrow> read_from C liquid (BytesIO raw))
      else read_from C liquid stream)"

text \<open>
  The \<^verbatim>\<open>try\<close> with its handler (lines 297-313).  The handler reads \<^verbatim>\<open>e.args[0]\<close>: on an
  exception whose \<^verbatim>\<open>args\<close> is empty this raises \<^verbatim>\<open>IndexError\<close> from inside the handler.
\<close>

definition decode :: "codec \<Rightarrow> bool \<Rightarrow> int \<Rightarrow> stream \<Rightarrow> exn + psbt" where
  "decode C liquid encoding stream =
     (case try_decode C liquid encoding stream of
        Inr p \<Rightarrow> Inr p
      | Inl e \<Rightarrow>
          (case exn_args e of
             [] \<Rightarrow> Inl (IndexError ''tuple index out of range'')
           | a # _ \<Rightarrow>
               if a = AStr ''Invalid PSBT magic''
               then Inl (WalletError (''Wrong transaction type! Switch to ''
                      @ (if liquid then ''Bitcoin'' else ''Liquid'') @ '' network to sign PSBT!''))
               else Inl e))"

text \<open>Instances for concrete runs: a runtime on a plain network whose streams carry no
  command prefix, and a codec whose \<^verbatim>\<open>read_from\<close> raises a given exception.\<close>

definition no_prefix_runtime :: runtime where
  "no_prefix_runtime =
     \<lparr>get_prefix = (\<lambda>s. (None, s)), is_liquid = (\<lambda>n. False), a2b_base64 = a2b_base64_upy,
      PSBT_MAGIC = ''psbt'' @ [CHR 0xFF], PSET_MAGIC = ''pset'' @ [CHR 0xFF]\<rparr>"

definition failing_codec :: "exn \<Rightarrow> codec" where
  "failing_codec e =
     \<lparr>a2b_base64_stream = (\<lambda>s. Inr (fst (read_all s))), read_from = (\<lambda>liquid s. Inl e)\<rparr>"

definition main_manager :: manager where
  "main_manager =
     \<lparr>root_path = ''/flash/wallets'', network = ''main'', keystore_uid = ''abcd'',
      assets = default_assets\<rparr>"

section \<open>Sighash policy of \<^verbatim>\<open>sign_psbt\<close>\<close>

text \<open>\<^verbatim>\<open>"%d" % n\<close> for a natural number, and \<^verbatim>\<open>"\n".join(lines)\<close>.\<close>

definition digit_char :: "nat \<Rightarrow> char" where
  "digit_char n = ''0123456789'' ! n"

fun str_nat :: "nat \<Rightarrow> string" where
  "str_nat n = (if n < 10 then [digit_char n] else str_nat (n div 10) @ [digit_char (n mod 10)])"

fun join_lines :: "string list \<Rightarrow> string" where
  "join_lines [] = []"
| "join_lines [l] = l"
| "join_lines (l # ls) = l @ [CHR 0x0A] @ join_lines ls"

text \<open>The flags of \<^verbatim>\<open>LSIGHASH\<close> (imported as \<^verbatim>\<open>SIGHASH\<close>, line 15) are a parameter; \<open>LSIGHASH\<close>
  holds the values of the Elements transaction format, for concrete runs.\<close>

record sighash_flags =
  SIGHASH_ALL :: int
  SIGHASH_NONE :: int
  SIGHASH_SINGLE :: int
  SIGHASH_ANYONECANPAY :: int
  SIGHASH_RANGEPROOF :: int

definition LSIGHASH :: sighash_flags where
  "LSIGHASH = \<lparr>SIGHASH_ALL = 1, SIGHASH_NONE = 2, SIGHASH_SINGLE = 3,
                SIGHASH_ANYONECANPAY = 0x80, SIGHASH_RANGEPROOF = 0x40\<rparr>"

text \<open>\<^verbatim>\<open>SIGHASH_NAMES\<close> (lines 41-51): the three base names, then two loops over a snapshot
  of the keys, each adding the key with one more flag.\<close>

definition add_flag_names :: "int \<Rightarrow> string \<Rightarrow> (int, string) dict \<Rightarrow> (int, string) dict" where
  "add_flag_names flag suffix names =
     fold (\<lambda>sh d. case map_of d sh of
                      None \<Rightarrow> d
                    | Some n \<Rightarrow> AList.update (sh OR flag) (n @ suffix) d)
          (map fst names) names"

definition SIGHASH_NAMES :: "sighash_flags \<Rightarrow> (int, string) dict" where
  "SIGHASH_NAMES S =
     add_flag_names (SIGHASH_RANGEPROOF S) '' | RANGEPROOF''
       (add_flag_names (SIGHASH_ANYONECANPAY S) '' | ANYONECANPAY''
          (AList.update (SIGHASH_SINGLE S) ''SINGLE''
             (AList.update (SIGHASH_NONE S) ''NONE''
                (AList.update (SIGHASH_ALL S) ''ALL'' []))))"

definition sighash_name :: "sighash_flags \<Rightarrow> int \<Rightarrow> exn + string" where
  "sighash_name S sh =
     (case map_of (SIGHASH_NAMES S) sh of None \<Rightarrow> Inl (KeyError (AInt sh)) | Some n \<Rightarrow> Inr n)"

text \<open>The default signing mode (line 295).\<close>

definition default_sighash :: "sighash_flags \<Rightarrow> bool \<Rightarrow> int" where
  "default_sighash S liquid =
     (if liquid then SIGHASH_ALL S OR SIGHASH_RANGEPROOF S else SIGHASH_ALL S)"

text \<open>
  The loop of lines 316-321.  \<^verbatim>\<open>inp.sighash_type and inp.sighash_type != sighash\<close> is false
  for \<^verbatim>\<open>None\<close> and for \<^verbatim>\<open>0\<close>, which Python takes as false.
\<close>

definition missing_prev :: "psbt_in \<Rightarrow> bool" where
  "missing_prev inp = (\<not> is_verified inp \<and> witness_utxo inp = None \<and> non_witness_utxo inp = None)"

definition custom_body :: "int \<Rightarrow> nat \<times> psbt_in \<Rightarrow> (nat \<times> int) list \<Rightarrow> exn + (nat \<times> int) list" where
  "custom_body sighash = (\<lambda>(i, inp) custom.
     if missing_prev inp then Inl (WalletError ''Invalid PSBT - missing previous transaction'')
     else (case sighash_type inp of
             None \<Rightarrow> Inr custom
           | Some sh \<Rightarrow> if sh \<noteq> 0 \<and> sh \<noteq> sighash then Inr (custom @ [(i, sh)]) else Inr custom))"

definition custom_sighashes :: "int \<Rightarrow> psbt \<Rightarrow> exn + (nat \<times> int) list" where
  "custom_sighashes sighash p = for_loop (custom_body sighash) (enumerate_list (inputs p)) []"

section \<open>Wallets, display metadata and screens\<close>

text \<open>
  A wallet as the manager sees it: where it is stored (which tells two wallets apart, as
  object identity does in the source), its name, its persisted gap bounds per branch
  (\<^verbatim>\<open>w.gaps\<close>), its class's \<^verbatim>\<open>GAP_LIMIT\<close> and whether it holds private keys.
\<close>

record wallet =
  wallet_path :: string
  name :: string
  gaps :: "int list"
  GAP_LIMIT :: int
  has_private_keys :: bool

text \<open>
  The dictionaries of \<^verbatim>\<open>meta\<close> (lines 664-678).  A key that a dictionary may lack is an
  option field (\<^verbatim>\<open>label\<close>, \<^verbatim>\<open>value\<close> and \<^verbatim>\<open>sighash\<close> of an input before its turn in the loop,
  \<^verbatim>\<open>label\<close> of an output that is no change); \<^verbatim>\<open>asset\<close> is \<open>None\<close> for Python's \<^verbatim>\<open>None\<close>.
\<close>

record meta_input =
  mi_asset :: "string option"
  mi_label :: "string option"
  mi_value :: "int option"
  mi_sighash :: "string option"

record meta_output =
  mo_address :: string
  mo_value :: int
  mo_change :: bool
  mo_asset :: "string option"
  mo_label :: "string option"

record meta =
  meta_inputs :: "meta_input list"
  meta_outputs :: "meta_output list"
  meta_fee :: int
  warnings :: "string list"
  unknown_assets :: "bytes list"

text \<open>The screens the manager shows: \<^verbatim>\<open>Prompt(title, message, confirm_text, cancel_text)\<close>,
  \<^verbatim>\<open>InputScreen(title, note)\<close> and \<^verbatim>\<open>TransactionScreen(title, meta)\<close>.\<close>

datatype screen =
    Prompt string string "string option" "string option"
  | InputScreen string string
  | TransactionScreen string meta

text \<open>The warning prompt of lines 323-330; a sighash without a name raises \<^verbatim>\<open>KeyError\<close>.\<close>

definition custom_line :: "sighash_flags \<Rightarrow> nat \<times> int \<Rightarrow> string list \<Rightarrow> exn + string list" where
  "custom_line S = (\<lambda>(i, sh) txt.
     case sighash_name S sh of
       Inl e \<Rightarrow> Inl e
     | Inr nm \<Rightarrow> Inr (txt @ [''Input '' @ str_nat i @ '': '' @ nm]))"

definition custom_sighash_prompt :: "sighash_flags \<Rightarrow> int \<Rightarrow> (nat \<times> int) list \<Rightarrow> nat \<Rightarrow> exn + screen" where
  "custom_sighash_prompt S sighash custom n =
     (case for_loop (custom_line S) custom [] of
        Inl e \<Rightarrow> Inl e
      | Inr txt \<Rightarrow>
          (case (if length custom \<noteq> n
                 then (case sighash_name S sighash of
                         Inl e \<Rightarrow> Inl e
                       | Inr nm \<Rightarrow> Inr (''Only sign '' @ nm))
                 else Inr ''Cancel'') of
             Inl e \<Rightarrow> Inl e
           | Inr canceltxt \<Rightarrow>
               Inr (Prompt ''Warning!''
                      ([CHR 0x0A] @ ''Custom SIGHASH flags are used!'' @ [CHR 0x0A, CHR 0x0A]
                         @ join_lines txt)
                      (Some ''Sign anyway'') (Some canceltxt))))"

text \<open>
  Lines 315-336 as one step.  The result is \<open>None\<close> where the source returns without a
  result, and otherwise the value of the local \<^verbatim>\<open>sighash\<close> afterwards (\<open>None\<close> for Python's
  \<^verbatim>\<open>None\<close>: sign every input whatever its flags).
\<close>

definition sighash_policy ::
    "sighash_flags \<Rightarrow> (screen \<Rightarrow> bool) \<Rightarrow> bool \<Rightarrow> psbt \<Rightarrow> exn + int option option" where
  "sighash_policy S answer liquid p =
     (let sighash = default_sighash S liquid in
      case custom_sighashes sighash p of
        Inl e \<Rightarrow> Inl e
      | Inr custom \<Rightarrow>
          if length custom > 0 then
            (case custom_sighash_prompt S sighash custom (length (inputs p)) of
               Inl e \<Rightarrow> Inl e
             | Inr scr \<Rightarrow>
                 if answer scr then Inr (Some None)
                 else if length custom = length (inputs p) then Inr None
                 else Inr (Some (Some sighash)))
          else Inr (Some (Some sighash)))"




text \<open>Inputs for concrete runs: an input with a previous output and no other data, and a
  container of given inputs.\<close>

definition plain_input :: "int option \<Rightarrow> psbt_in" where
  "plain_input sh =
     \<lparr>is_verified = False,
      witness_utxo = Some \<lparr>script_pubkey = ''script'', amount = 100000, asset = []\<rparr>,
      non_witness_utxo = None, sighash_type = sh, partial_sigs = [], bip32_derivations = [],
      witness_script = None, redeem_script = None, inp_value = 100000, inp_asset = []\<rparr>"

definition psbt_of_inputs :: "psbt_in list \<Rightarrow> psbt" where
  "psbt_of_inputs ins =
     \<lparr>vout = [], inputs = ins, outputs = [], hash_outputs_rangeproofs = None\<rparr>"

section \<open>Ownership matching: \<^verbatim>\<open>get_address\<close> and \<^verbatim>\<open>parse_psbt\<close>\<close>

text \<open>
  What the matcher calls on wallets and on the container: \<^verbatim>\<open>w.owns(out, derivations,
  script)\<close> with the blinding key as an optional fourth argument, \<^verbatim>\<open>w.get_derivation\<close> (branch
  and index), \<^verbatim>\<open>psbt.utxo(i)\<close>, \<^verbatim>\<open>psbt.fee()\<close> and the two address encoders.  A script field
  is \<open>None\<close> when Python takes it as false, so \<^verbatim>\<open>a or b\<close> on scripts is \<open>py_or\<close>.
\<close>

record collab =
  owns :: "wallet \<Rightarrow> txout \<Rightarrow> derivations \<Rightarrow> bytes option \<Rightarrow> bytes option \<Rightarrow> bool"
  get_derivation :: "wallet \<Rightarrow> derivations \<Rightarrow> nat \<times> nat"
  utxo :: "psbt \<Rightarrow> nat \<Rightarrow> txout"
  fee :: "psbt \<Rightarrow> int"
  script_address :: "bytes \<Rightarrow> string \<Rightarrow> exn + string"
  liquid_address :: "bytes \<Rightarrow> bytes \<Rightarrow> string \<Rightarrow> exn + string"

definition py_or :: "bytes option \<Rightarrow> bytes option \<Rightarrow> bytes option" where
  "py_or a b = (case a of None \<Rightarrow> b | Some x \<Rightarrow> Some x)"

text \<open>Python's truth value of an optional bytes field: \<^verbatim>\<open>None\<close> and \<^verbatim>\<open>b""\<close> are false.\<close>

definition truthy :: "bytes option \<Rightarrow> bool" where
  "truthy b = (case b of None \<Rightarrow> False | Some x \<Rightarrow> x \<noteq> [])"

text \<open>\<^verbatim>\<open>xs[i]\<close> on a list, and \<^verbatim>\<open>xs.index(x)\<close> for an element of the list.\<close>

definition item :: "'a list \<Rightarrow> nat \<Rightarrow> exn + 'a" where
  "item xs i = (if i < length xs then Inr (xs ! i) else Inl (IndexError ''list index out of range''))"

fun index_of :: "'a \<Rightarrow> 'a list \<Rightarrow> nat" where
  "index_of x [] = 0"
| "index_of x (y # ys) = (if x = y then 0 else Suc (index_of x ys))"

text \<open>\<^verbatim>\<open>get_address\<close> (lines 53-69).\<close>

definition get_address :: "collab \<Rightarrow> runtime \<Rightarrow> txout \<Rightarrow> psbt_out \<Rightarrow> string \<Rightarrow> exn + string" where
  "get_address K R v psbtout net =
     (if is_liquid R net \<and> script_pubkey v = [] then Inr ''Fee''
      else
        (case (if is_liquid R net then blinding_pubkey psbtout else None) of
           Some bpub \<Rightarrow> liquid_address K (script_pubkey v) bpub net
         | None \<Rightarrow>
             (case script_address K (script_pubkey v) net of
                Inr a \<Rightarrow> Inr a
              | Inl e \<Rightarrow> Inr (hexlify (script_pubkey v)))))"

text \<open>The index annotation of a label (lines 700-705 and 769-774).\<close>

definition branch_suffix :: "nat \<Rightarrow> nat \<Rightarrow> string" where
  "branch_suffix branch_idx idx =
     (if branch_idx = 1 then '' change '' @ str_nat idx
      else if branch_idx = 0 then '' #'' @ str_nat idx
      else '' #'' @ str_nat idx @ '' on branch '' @ str_nat branch_idx)"

definition default_asset :: "runtime \<Rightarrow> manager \<Rightarrow> string option" where
  "default_asset R m =
     (if is_liquid R (network m) then None
      else if network m = ''main'' then Some ''BTC'' else Some ''tBTC'')"

text \<open>The initial \<^verbatim>\<open>meta\<close> (lines 664-678).\<close>

definition init_output :: "collab \<Rightarrow> runtime \<Rightarrow> manager \<Rightarrow> psbt \<Rightarrow> nat \<times> txout \<Rightarrow> meta_output list \<Rightarrow> exn + meta_output list" where
  "init_output K R m p = (\<lambda>(i, out) acc.
     case item (outputs p) i of
       Inl e \<Rightarrow> Inl e
     | Inr psbtout \<Rightarrow>
         (case get_address K R out psbtout (network m) of
            Inl e \<Rightarrow> Inl e
          | Inr a \<Rightarrow>
              Inr (acc @ [\<lparr>mo_address = a, mo_value = amount out, mo_change = False,
                            mo_asset = default_asset R m, mo_label = None\<rparr>])))"

definition init_meta :: "collab \<Rightarrow> runtime \<Rightarrow> manager \<Rightarrow> psbt \<Rightarrow> exn + meta" where
  "init_meta K R m p =
     (case for_loop (init_output K R m p) (enumerate_list (vout p)) [] of
        Inl e \<Rightarrow> Inl e
      | Inr outs \<Rightarrow>
          Inr \<lparr>meta_inputs = map (\<lambda>inp. \<lparr>mi_asset = default_asset R m, mi_label = None,
                                           mi_value = None, mi_sighash = None\<rparr>) (inputs p),
               meta_outputs = outs, meta_fee = fee K p, warnings = [], unknown_assets = []\<rparr>)"

definition set_input :: "nat \<Rightarrow> (meta_input \<Rightarrow> meta_input) \<Rightarrow> meta \<Rightarrow> meta" where
  "set_input i f mt = mt\<lparr>meta_inputs := (meta_inputs mt)[i := f (meta_inputs mt ! i)]\<rparr>"

definition set_output :: "nat \<Rightarrow> (meta_output \<Rightarrow> meta_output) \<Rightarrow> meta \<Rightarrow> meta" where
  "set_output i f mt = mt\<lparr>meta_outputs := (meta_outputs mt)[i := f (meta_outputs mt ! i)]\<rparr>"

text \<open>Lines 706-711 and 715-720: the running totals per wallet, \<open>None\<close> being the bucket of
  the inputs no wallet owns.\<close>

definition add_spend :: "wallet option \<Rightarrow> int \<Rightarrow> wallet option list \<times> int list \<Rightarrow> wallet option list \<times> int list" where
  "add_spend w v = (\<lambda>(wallets, amounts).
     if w \<notin> set wallets then (wallets @ [w], amounts @ [v])
     else (let idx = index_of w wallets in (wallets, amounts[idx := amounts ! idx + v])))"

text \<open>The asset label of an input or output on a confidential network (lines 685-690 and
  730-736).\<close>

definition note_unknown :: "bytes \<Rightarrow> meta \<Rightarrow> meta" where
  "note_unknown a mt =
     (if a \<notin> set (unknown_assets mt) then mt\<lparr>unknown_assets := unknown_assets mt @ [a]\<rparr> else mt)"

text \<open>The body of the loop over inputs (lines 680-720).\<close>

definition input_step ::
    "collab \<Rightarrow> sighash_flags \<Rightarrow> runtime \<Rightarrow> manager \<Rightarrow> wallet list \<Rightarrow> psbt \<Rightarrow> nat \<times> psbt_in
      \<Rightarrow> meta \<times> wallet option list \<times> int list \<Rightarrow> exn + meta \<times> wallet option list \<times> int list" where
  "input_step K S R m ws p = (\<lambda>(i, inp) (mt, spent).
     let liquid = is_liquid R (network m);
         v = (if \<not> liquid then amount (utxo K p i) else inp_value inp);
         mt1 = (if liquid then
                  (case map_of (assets m) (inp_asset inp) of
                     Some lbl \<Rightarrow> set_input i (\<lambda>d. d\<lparr>mi_asset := Some lbl\<rparr>) mt
                   | None \<Rightarrow> note_unknown (inp_asset inp) mt)
                else mt)
     in case sighash_name S (case sighash_type inp of
                               None \<Rightarrow> SIGHASH_ALL S
                             | Some sh \<Rightarrow> if sh = 0 then SIGHASH_ALL S else sh) of
          Inl e \<Rightarrow> Inl e
        | Inr shn \<Rightarrow>
            (let mt2 = set_input i (\<lambda>d. d\<lparr>mi_label := Some ''Unknown wallet'', mi_value := Some v,
                                          mi_sighash := Some shn\<rparr>) mt1
             in case find (\<lambda>w. owns K w (utxo K p i) (bip32_derivations inp)
                                  (py_or (witness_script inp) (redeem_script inp)) None) ws of
                  Some w \<Rightarrow>
                    (case get_derivation K w (bip32_derivations inp) of
                       (branch_idx, idx) \<Rightarrow>
                         Inr (set_input i (\<lambda>d. d\<lparr>mi_label := Some (name w @ branch_suffix branch_idx idx)\<rparr>) mt2,
                              add_spend (Some w) v spent))
                | None \<Rightarrow> Inr (mt2, add_spend None v spent)))"

text \<open>The body of the loop over outputs that marks change (lines 728-746).\<close>

definition output_step ::
    "collab \<Rightarrow> runtime \<Rightarrow> manager \<Rightarrow> psbt \<Rightarrow> wallet option list \<Rightarrow> nat \<times> psbt_out \<Rightarrow> meta \<Rightarrow> exn + meta" where
  "output_step K R m p wallets = (\<lambda>(i, out) mt.
     case item (vout p) i of
       Inl e \<Rightarrow> Inl e
     | Inr v \<Rightarrow>
         (let liquid = is_liquid R (network m);
              mt1 = (if liquid then
                       (case map_of (assets m) (drop 1 (asset v)) of
                          Some lbl \<Rightarrow> set_output i (\<lambda>d. d\<lparr>mo_asset := Some lbl\<rparr>) mt
                        | None \<Rightarrow> note_unknown (drop 1 (asset v)) mt)
                     else mt)
          in if liquid \<and> script_pubkey v = [] then Inr mt1
             else
               (case find (\<lambda>w. case w of
                                  None \<Rightarrow> False
                                | Some w \<Rightarrow> truthy (blinding_pubkey out) \<and>
                                    owns K w v (out_bip32_derivations out)
                                      (py_or (out_witness_script out) (out_redeem_script out))
                                      (blinding_pubkey out)) wallets of
                  Some (Some w) \<Rightarrow>
                    Inr (set_output i (\<lambda>d. d\<lparr>mo_change := True, mo_label := Some (name w)\<rparr>) mt1)
                | _ \<Rightarrow> Inr mt1)))"

text \<open>
  The effective gap bounds (lines 748-761): a copy of each wallet's persisted bounds
  (\<^verbatim>\<open>[0, 0]\<close> for the unknown bucket), raised by the inputs of the transaction.
\<close>

definition init_gaps :: "wallet option list \<Rightarrow> int list list" where
  "init_gaps wallets = map (\<lambda>w. case w of None \<Rightarrow> [0, 0] | Some w \<Rightarrow> gaps w) wallets"

definition raise_gap :: "collab \<Rightarrow> psbt \<Rightarrow> nat \<times> psbt_in \<Rightarrow> nat \<times> wallet option \<Rightarrow> int list list \<Rightarrow> exn + int list list" where
  "raise_gap K p = (\<lambda>(inidx, inp) (i, w) g.
     case w of
       None \<Rightarrow> Inr g
     | Some w \<Rightarrow>
         if owns K w (utxo K p inidx) (bip32_derivations inp)
              (py_or (witness_script inp) (redeem_script inp)) None
         then
           (case get_derivation K w (bip32_derivations inp) of
              (branch_idx, idx) \<Rightarrow>
                if i < length g \<and> branch_idx < length (g ! i) then
                  (if g ! i ! branch_idx < int idx + GAP_LIMIT w
                   then Inr (g[i := (g ! i)[branch_idx := int idx + GAP_LIMIT w]])
                   else Inr g)
                else Inl (IndexError ''list index out of range''))
         else Inr g)"

definition raise_gaps :: "collab \<Rightarrow> psbt \<Rightarrow> wallet option list \<Rightarrow> exn + int list list" where
  "raise_gaps K p wallets =
     for_loop (\<lambda>x g. for_loop (raise_gap K p x) (enumerate_list wallets) g)
       (enumerate_list (inputs p)) (init_gaps wallets)"

text \<open>
  The check of one change output against the wallets (lines 766-781).  The state is the
  output's label and the warning list.  \<^verbatim>\<open>w.owns\<close> on the unknown bucket raises
  \<^verbatim>\<open>AttributeError\<close>; the \<^verbatim>\<open>break\<close> after a warning ends this inner loop only.
\<close>

fun gap_check ::
    "collab \<Rightarrow> int list list \<Rightarrow> txout \<Rightarrow> psbt_out \<Rightarrow> (nat \<times> wallet option) list
      \<Rightarrow> string \<times> string list \<Rightarrow> exn + string \<times> string list" where
  "gap_check K g v out [] st = Inr st"
| "gap_check K g v out ((j, None) # rest) st =
     Inl (AttributeError (''NoneType object has no attribute owns''))"
| "gap_check K g v out ((j, Some w) # rest) (lbl, warns) =
     (if owns K w v (out_bip32_derivations out)
           (py_or (out_witness_script out) (out_redeem_script out)) None
      then
        (case get_derivation K w (out_bip32_derivations out) of
           (branch_idx, idx) \<Rightarrow>
             if j < length g \<and> branch_idx < length (g ! j) then
               (if int idx > g ! j ! branch_idx
                then Inr (lbl @ branch_suffix branch_idx idx,
                          warns @ [''Address index '' @ str_nat idx @ '' is beyond the gap limit!''])
                else gap_check K g v out rest (lbl @ branch_suffix branch_idx idx, warns))
             else Inl (IndexError ''list index out of range''))
      else gap_check K g v out rest (lbl, warns))"

text \<open>The body of the loop over outputs that checks the gap (lines 763-781).  An output
  marked as change carries a label (line 745), which the annotation extends.\<close>

definition gap_step ::
    "collab \<Rightarrow> psbt \<Rightarrow> wallet option list \<Rightarrow> int list list \<Rightarrow> nat \<times> psbt_out \<Rightarrow> meta \<Rightarrow> exn + meta" where
  "gap_step K p wallets g = (\<lambda>(i, out) mt.
     case item (meta_outputs mt) i of
       Inl e \<Rightarrow> Inl e
     | Inr d \<Rightarrow>
         if \<not> mo_change d then Inr mt
         else
           (case item (vout p) i of
              Inl e \<Rightarrow> Inl e
            | Inr v \<Rightarrow>
                (case gap_check K g v out (enumerate_list wallets)
                        (case mo_label d of None \<Rightarrow> [] | Some l \<Rightarrow> l, warnings mt) of
                   Inl e \<Rightarrow> Inl e
                 | Inr (lbl, warns) \<Rightarrow>
                     Inr ((set_output i (\<lambda>d. d\<lparr>mo_label := Some lbl\<rparr>) mt)\<lparr>warnings := warns\<rparr>))))"

text \<open>
  \<^verbatim>\<open>parse_psbt\<close> (lines 647-783).  Line 725 appends to \<^verbatim>\<open>warnings\<close>, a name that is bound
  nowhere in the module, so with more than one entry in \<^verbatim>\<open>wallets\<close> it raises \<^verbatim>\<open>NameError\<close>.
\<close>

definition parse_psbt ::
    "collab \<Rightarrow> sighash_flags \<Rightarrow> runtime \<Rightarrow> manager \<Rightarrow> wallet list \<Rightarrow> psbt
      \<Rightarrow> exn + (wallet option \<times> int) list \<times> meta" where
  "parse_psbt K S R m ws p =
     (case init_meta K R m p of
        Inl e \<Rightarrow> Inl e
      | Inr mt0 \<Rightarrow>
     (case for_loop (input_step K S R m ws p) (enumerate_list (inputs p)) (mt0, [], []) of
        Inl e \<Rightarrow> Inl e
      | Inr (mt1, wallets, amounts) \<Rightarrow>
     (let mt2 = (if None \<in> set wallets
                 then mt1\<lparr>warnings := warnings mt1 @ [''Unknown wallet in input!'']\<rparr>
                 else mt1)
      in if length wallets > 1
         then Inl (NameError (''name '' @ [CHR 0x27] @ ''warnings'' @ [CHR 0x27] @ '' is not defined''))
         else
     (case for_loop (output_step K R m p wallets) (enumerate_list (outputs p)) mt2 of
        Inl e \<Rightarrow> Inl e
      | Inr mt3 \<Rightarrow>
     (case raise_gaps K p wallets of
        Inl e \<Rightarrow> Inl e
      | Inr g \<Rightarrow>
     (case for_loop (gap_step K p wallets g) (enumerate_list (outputs p)) mt3 of
        Inl e \<Rightarrow> Inl e
      | Inr mt4 \<Rightarrow> Inr (zip wallets amounts, mt4)))))))"

text \<open>
  For the statement of the gap bounds: whether a wallet owns an input (the test of line
  758), the branch and the bound \<open>idx + GAP_LIMIT\<close> that input gives, the effect of one input
  on one wallet's row of bounds, and the bounds that the inputs a wallet owns on a branch
  give.
\<close>

definition owns_input :: "collab \<Rightarrow> psbt \<Rightarrow> wallet \<Rightarrow> nat \<times> psbt_in \<Rightarrow> bool" where
  "owns_input K p w = (\<lambda>(inidx, inp).
     owns K w (utxo K p inidx) (bip32_derivations inp)
       (py_or (witness_script inp) (redeem_script inp)) None)"

definition input_bound :: "collab \<Rightarrow> wallet \<Rightarrow> nat \<times> psbt_in \<Rightarrow> int" where
  "input_bound K w = (\<lambda>(inidx, inp).
     int (snd (get_derivation K w (bip32_derivations inp))) + GAP_LIMIT w)"

definition input_branch :: "collab \<Rightarrow> wallet \<Rightarrow> nat \<times> psbt_in \<Rightarrow> nat" where
  "input_branch K w = (\<lambda>(inidx, inp). fst (get_derivation K w (bip32_derivations inp)))"

definition step_row :: "collab \<Rightarrow> psbt \<Rightarrow> nat \<times> psbt_in \<Rightarrow> wallet option \<Rightarrow> int list \<Rightarrow> int list" where
  "step_row K p x w row =
     (case w of
        None \<Rightarrow> row
      | Some w \<Rightarrow>
          if owns_input K p w x
          then row[input_branch K w x := max (row ! input_branch K w x) (input_bound K w x)]
          else row)"

definition owned_bounds :: "collab \<Rightarrow> psbt \<Rightarrow> wallet \<Rightarrow> nat \<Rightarrow> int list" where
  "owned_bounds K p w b =
     map (input_bound K w)
       (filter (\<lambda>x. owns_input K p w x \<and> input_branch K w x = b) (enumerate_list (inputs p)))"

text \<open>
  Instances for concrete runs.  A wallet owns what carries a derivation with the wallet's
  name as fingerprint, at the branch and index of the derivation's path; a confidential
  runtime and manager; inputs and outputs with one derivation.
\<close>

definition fp_collab :: collab where
  "fp_collab =
     \<lparr>owns = (\<lambda>w v d sc bk. case d of [] \<Rightarrow> False | (pub, (fp, path)) # _ \<Rightarrow> fp = name w),
      get_derivation = (\<lambda>w d. case d of (pub, (fp, [b, i])) # _ \<Rightarrow> (b, i) | _ \<Rightarrow> (0, 0)),
      utxo = (\<lambda>p i. case witness_utxo (inputs p ! i) of
                       Some u \<Rightarrow> u
                     | None \<Rightarrow> \<lparr>script_pubkey = [], amount = 0, asset = []\<rparr>),
      fee = (\<lambda>p. 1000),
      script_address = (\<lambda>sc net. Inr (hexlify sc)),
      liquid_address = (\<lambda>sc bpub net. Inr (hexlify sc))\<rparr>"

definition liquid_runtime :: runtime where
  "liquid_runtime = no_prefix_runtime\<lparr>is_liquid := (\<lambda>n. n = ''liquidv1'')\<rparr>"

definition liquid_manager :: manager where
  "liquid_manager = main_manager\<lparr>network := ''liquidv1'', assets := [(''A'', ''LBTC'')]\<rparr>"

definition owned_input :: "string \<Rightarrow> nat \<Rightarrow> nat \<Rightarrow> psbt_in" where
  "owned_input fp b i = (plain_input None)\<lparr>bip32_derivations := [(''pub'', (fp, [b, i]))]\<rparr>"

definition change_output :: "string \<Rightarrow> nat \<Rightarrow> nat \<Rightarrow> psbt_out" where
  "change_output fp b i =
     \<lparr>unknown = [], range_proof = None, surjection_proof = None, blinding_pubkey = Some ''bpub'',
      nonce_commitment = None, out_bip32_derivations = [(''pub'', (fp, [b, i]))],
      out_witness_script = None, out_redeem_script = None\<rparr>"

definition test_wallet :: "string \<Rightarrow> wallet" where
  "test_wallet n =
     \<lparr>wallet_path = ''/flash/wallets/abcd/main/'' @ n, name = n, gaps = [20, 20],
      GAP_LIMIT = 20, has_private_keys = True\<rparr>"

definition raised_bound_psbt :: psbt where
  "raised_bound_psbt =
     \<lparr>vout = [\<lparr>script_pubkey = ''s1'', amount = 5, asset = ''xA''\<rparr>,
              \<lparr>script_pubkey = ''s2'', amount = 6, asset = ''xA''\<rparr>],
      inputs = [(owned_input ''Default'' 1 30)\<lparr>inp_asset := ''A''\<rparr>],
      outputs = [change_output ''Default'' 1 45, change_output ''Default'' 1 60],
      hash_outputs_rangeproofs = None\<rparr>"

definition two_change_psbt :: psbt where
  "two_change_psbt =
     \<lparr>vout = [\<lparr>script_pubkey = ''s1'', amount = 5, asset = ''xA''\<rparr>,
              \<lparr>script_pubkey = ''s2'', amount = 6, asset = ''xA''\<rparr>],
      inputs = [(owned_input ''Default'' 0 0)\<lparr>inp_asset := ''A''\<rparr>],
      outputs = [change_output ''Default'' 1 50, change_output ''Default'' 1 60],
      hash_outputs_rangeproofs = None\<rparr>"

section \<open>Confidential finalization in \<^verbatim>\<open>sign_psbt\<close>\<close>

text \<open>
  What the pass calls: \<^verbatim>\<open>compact.to_bytes\<close>, \<^verbatim>\<open>ec.PrivateKey(nonce).sec()\<close>, the ECDH nonce of
  lines 404-407 (from the blinding key and the device nonce), \<^verbatim>\<open>secp256k1.rangeproof_sign\<close>
  with the arguments of lines 409-412, and SHA-256.
\<close>

record crypto =
  compact_to_bytes :: "nat \<Rightarrow> bytes"
  private_key_sec :: "bytes \<Rightarrow> bytes"
  ecdh_nonce :: "bytes option \<Rightarrow> bytes \<Rightarrow> exn + bytes"
  rangeproof_sign :: "bytes \<Rightarrow> txout \<Rightarrow> psbt_out \<Rightarrow> exn + bytes"
  sha256 :: "bytes \<Rightarrow> bytes"

text \<open>The proprietary key of the device nonce, \<^verbatim>\<open>b'\xfc\x07specter\x01'\<close>.\<close>

definition nonce_key :: bytes where
  "nonce_key = [CHR 0xFC, CHR 0x07] @ ''specter'' @ [CHR 0x01]"

text \<open>The four \<^verbatim>\<open>h.update\<close> calls of lines 392-395 and 413-416; \<^verbatim>\<open>len\<close> of an absent
  surjection proof raises \<^verbatim>\<open>TypeError\<close>.\<close>

definition fold_proofs :: "crypto \<Rightarrow> bytes \<Rightarrow> bytes option \<Rightarrow> bytes \<Rightarrow> exn + bytes" where
  "fold_proofs X prf sproof h =
     (case sproof of
        None \<Rightarrow> Inl (TypeError ''object of type NoneType has no len()'')
      | Some sp \<Rightarrow>
          Inr (h @ compact_to_bytes X (length prf) @ prf @ compact_to_bytes X (length sp) @ sp))"

text \<open>
  The body of the loop over outputs (lines 387-419).  The state is the bytes fed to the
  digest so far, the binding of the local variable \<^verbatim>\<open>proof\<close> (\<open>None\<close>: unbound; it is
  assigned at line 409 and deleted at line 418) and the outputs already visited, as the
  loop leaves them.  Line 392 reads \<^verbatim>\<open>proof\<close>, not \<^verbatim>\<open>out.range_proof\<close>.
\<close>

definition finalize_step ::
    "crypto \<Rightarrow> psbt \<Rightarrow> nat \<times> psbt_out \<Rightarrow> bytes \<times> bytes option \<times> psbt_out list
      \<Rightarrow> exn + bytes \<times> bytes option \<times> psbt_out list" where
  "finalize_step X p = (\<lambda>(i, out) (h, proof, outs).
     case map_of (unknown out) nonce_key of
       None \<Rightarrow>
         if truthy (range_proof out) then
           (case proof of
              None \<Rightarrow> Inl (UnboundLocalError
                  (''local variable '' @ [CHR 0x27] @ ''proof'' @ [CHR 0x27]
                     @ '' referenced before assignment''))
            | Some prf \<Rightarrow>
                (case fold_proofs X prf (surjection_proof out) h of
                   Inl e \<Rightarrow> Inl e
                 | Inr h' \<Rightarrow> Inr (h', proof, outs @ [out])))
         else Inr (h @ [CHR 0x00, CHR 0x00], proof, outs @ [out])
     | Some nonce \<Rightarrow>
         if truthy (nonce_commitment out) \<and> nonce_commitment out \<noteq> Some (private_key_sec X nonce)
         then Inl AssertionError
         else
           (let out1 = (if truthy (nonce_commitment out) then out
                        else out\<lparr>nonce_commitment := Some (private_key_sec X nonce)\<rparr>)
            in case ecdh_nonce X (blinding_pubkey out1) nonce of
                 Inl e \<Rightarrow> Inl e
               | Inr en \<Rightarrow>
                   (case item (vout p) i of
                      Inl e \<Rightarrow> Inl e
                    | Inr v \<Rightarrow>
                        (case rangeproof_sign X en v out1 of
                           Inl e \<Rightarrow> Inl e
                         | Inr prf \<Rightarrow>
                             (case fold_proofs X prf (surjection_proof out1) h of
                                Inl e \<Rightarrow> Inl e
                              | Inr h' \<Rightarrow>
                                  Inr (h', None, outs @ [out1\<lparr>surjection_proof := None\<rparr>]))))))"

text \<open>Lines 383-420: the pass, and the digest it stores in the transaction.\<close>

definition finalize :: "crypto \<Rightarrow> psbt \<Rightarrow> exn + psbt" where
  "finalize X p =
     (case for_loop (finalize_step X p) (enumerate_list (outputs p)) ([], None, []) of
        Inl e \<Rightarrow> Inl e
      | Inr (h, proof, outs) \<Rightarrow>
          Inr (p\<lparr>outputs := outs, hash_outputs_rangeproofs := Some (sha256 X h)\<rparr>))"

section \<open>Signing and signature accounting in \<^verbatim>\<open>sign_psbt\<close>\<close>

text \<open>
  What the signing step calls on a wallet (\<^verbatim>\<open>update_gaps\<close>, \<^verbatim>\<open>fill_psbt\<close>, \<^verbatim>\<open>sign_psbt\<close>), on
  the keystore (\<^verbatim>\<open>sign_psbt\<close>) and on the result (\<^verbatim>\<open>serialize\<close>, \<^verbatim>\<open>b2a_base64\<close>).  Each call
  that changes the container returns the container it leaves, or raises.
\<close>

record signer =
  update_gaps :: "wallet \<Rightarrow> psbt \<Rightarrow> wallet"
  fill_psbt :: "wallet \<Rightarrow> psbt \<Rightarrow> exn + psbt"
  wallet_sign_psbt :: "wallet \<Rightarrow> psbt \<Rightarrow> int option \<Rightarrow> exn + psbt"
  keystore_sign_psbt :: "psbt \<Rightarrow> int option \<Rightarrow> exn + psbt"
  serialize :: "psbt \<Rightarrow> bytes"
  b2a_base64 :: "bytes \<Rightarrow> bytes"

text \<open>The count of lines 423-425 and 438-440.\<close>

definition count_sigs :: "psbt \<Rightarrow> nat" where
  "count_sigs p = sum_list (map (\<lambda>inp. length (map fst (partial_sigs inp))) (inputs p))"

text \<open>The body of the loop over the spending wallets (lines 426-434); the second component
  collects the wallets saved with their advanced gap bounds.\<close>

definition sign_wallet ::
    "signer \<Rightarrow> int option \<Rightarrow> wallet option \<times> int \<Rightarrow> psbt \<times> wallet list \<Rightarrow> exn + psbt \<times> wallet list" where
  "sign_wallet G sighash = (\<lambda>(w, amt) (p, saved).
     case w of
       None \<Rightarrow> Inr (p, saved)
     | Some w \<Rightarrow>
         (let w' = update_gaps G w p in
          case fill_psbt G w' p of
            Inl e \<Rightarrow> Inl e
          | Inr p1 \<Rightarrow>
              if has_private_keys w' then
                (case wallet_sign_psbt G w' p1 sighash of
                   Inl e \<Rightarrow> Inl e
                 | Inr p2 \<Rightarrow> Inr (p2, saved @ [w']))
              else Inr (p1, saved @ [w'])))"

text \<open>The container after the wallets and the keystore have signed (lines 426-435).\<close>

definition signed_psbt ::
    "signer \<Rightarrow> (wallet option \<times> int) list \<Rightarrow> int option \<Rightarrow> psbt \<Rightarrow> exn + psbt \<times> wallet list" where
  "signed_psbt G wallets sighash p =
     (case for_loop (sign_wallet G sighash) wallets (p, []) of
        Inl e \<Rightarrow> Inl e
      | Inr (p1, saved) \<Rightarrow>
          (case keystore_sign_psbt G p1 sighash of
             Inl e \<Rightarrow> Inl e
           | Inr p2 \<Rightarrow> Inr (p2, saved)))"

text \<open>\<^verbatim>\<open>PSBTClass(psbt.tx)\<close> with the partial signatures copied over (lines 437-441).\<close>

definition empty_input :: psbt_in where
  "empty_input =
     \<lparr>is_verified = False, witness_utxo = None, non_witness_utxo = None, sighash_type = None,
      partial_sigs = [], bip32_derivations = [], witness_script = None, redeem_script = None,
      inp_value = 0, inp_asset = []\<rparr>"

definition empty_output :: psbt_out where
  "empty_output =
     \<lparr>unknown = [], range_proof = None, surjection_proof = None, blinding_pubkey = None,
      nonce_commitment = None, out_bip32_derivations = [], out_witness_script = None,
      out_redeem_script = None\<rparr>"

definition out_psbt :: "psbt \<Rightarrow> psbt" where
  "out_psbt p =
     \<lparr>vout = vout p,
      inputs = map (\<lambda>inp. empty_input\<lparr>partial_sigs := partial_sigs inp\<rparr>) (inputs p),
      outputs = map (\<lambda>v. empty_output) (vout p),
      hash_outputs_rangeproofs = hash_outputs_rangeproofs p\<rparr>"

text \<open>\<^verbatim>\<open>s.strip()\<close>.\<close>

definition is_space :: "char \<Rightarrow> bool" where
  "is_space c = (c \<in> set [CHR '' '', CHR 0x09, CHR 0x0A, CHR 0x0B, CHR 0x0C, CHR 0x0D])"

definition strip :: "string \<Rightarrow> string" where
  "strip t = rev (dropWhile is_space (rev (dropWhile is_space t)))"

definition no_signatures_message :: string where
  "no_signatures_message =
     ''We didn'' @ [CHR 0x27] @ ''t add any signatures!'' @ [CHR 0x0A, CHR 0x0A]
       @ ''Maybe you forgot to import the wallet?'' @ [CHR 0x0A, CHR 0x0A]
       @ ''Scan the wallet descriptor to import it.''"

definition encode_result :: "signer \<Rightarrow> int \<Rightarrow> psbt \<Rightarrow> bytes" where
  "encode_result G encoding p =
     (if encoding = BASE64_STREAM then strip (b2a_base64 G (serialize G (out_psbt p)))
      else serialize G (out_psbt p))"

text \<open>The signing step (lines 422-453): the reply stream and the wallets saved.\<close>

definition sign_step ::
    "signer \<Rightarrow> (wallet option \<times> int) list \<Rightarrow> int option \<Rightarrow> int \<Rightarrow> psbt \<Rightarrow> exn + stream \<times> wallet list" where
  "sign_step G wallets sighash encoding p =
     (let sigsStart = count_sigs p in
      case signed_psbt G wallets sighash p of
        Inl e \<Rightarrow> Inl e
      | Inr (p2, saved) \<Rightarrow>
          (let sigsEnd = count_sigs p2 in
           if sigsEnd = sigsStart then Inl (WalletError no_signatures_message)
           else Inr (BytesIO (encode_result G encoding p2), saved)))"

text \<open>Instances for concrete runs: proofs of fixed bytes with one-byte lengths, and a keystore
  that signs every input with one key.\<close>

definition fixed_crypto :: crypto where
  "fixed_crypto =
     \<lparr>compact_to_bytes = (\<lambda>n. [char_of n]), private_key_sec = (\<lambda>nonce. ''sec'' @ nonce),
      ecdh_nonce = (\<lambda>bpub nonce. Inr nonce), rangeproof_sign = (\<lambda>en v out. Inr ''rangeproof''),
      sha256 = (\<lambda>b. ''sha256:'' @ b)\<rparr>"

definition one_key_signer :: signer where
  "one_key_signer =
     \<lparr>update_gaps = (\<lambda>w p. w), fill_psbt = (\<lambda>w p. Inr p),
      wallet_sign_psbt = (\<lambda>w p sh. Inr p),
      keystore_sign_psbt = (\<lambda>p sh.
         Inr (p\<lparr>inputs := map (\<lambda>inp. inp\<lparr>partial_sigs := AList.update ''pub'' ''sig'' (partial_sigs inp)\<rparr>)
                             (inputs p)\<rparr>)),
      serialize = (\<lambda>p. concat (map (\<lambda>inp. concat (map (\<lambda>(k, v). k @ '':'' @ v @ '';'') (partial_sigs inp))) (inputs p))),
      b2a_base64 = (\<lambda>b. b @ [CHR 0x0A])\<rparr>"

definition finalized_output :: psbt_out where
  "finalized_output = empty_output\<lparr>range_proof := Some ''existing-proof'',
      surjection_proof := Some ''surjection''\<rparr>"

section \<open>\<^verbatim>\<open>sign_psbt\<close> as a whole\<close>

text \<open>
  What \<^verbatim>\<open>sign_psbt\<close> calls besides: \<^verbatim>\<open>psbt.verify()\<close> (the container as it leaves it), the
  user's answers to a prompt or transaction screen and to an input screen, \<^verbatim>\<open>format_addr\<close>
  and the formatting \<^verbatim>\<open>'%.8f' % (amount / 1e8)\<close> of an amount.
\<close>

record host =
  verify :: "psbt \<Rightarrow> exn + psbt"
  show_screen :: "screen \<Rightarrow> bool"
  input_screen :: "screen \<Rightarrow> string option"
  format_addr :: "string \<Rightarrow> string"
  format_btc :: "int \<Rightarrow> string"

definition NL :: string where "NL = [CHR 0x0A]"

definition unknown_asset_prompt :: screen where
  "unknown_asset_prompt =
     Prompt ''Warning!''
       (NL @ ''Unknown asset in the transaction!'' @ NL @ NL @ NL
          @ ''Do you want to label them?'' @ NL
          @ ''Otherwise they will be rendered as '' @ [CHR 0x22] @ ''???'' @ [CHR 0x22])
       None None"

definition asset_input_screen :: "host \<Rightarrow> bytes \<Rightarrow> screen" where
  "asset_input_screen H a =
     InputScreen (''Asset'' @ NL @ NL @ format_addr H (hexlify (rev a)))
       (NL @ ''Choose a label for unknown asset.'' @ NL
          @ ''Better to keep it short, like LBTC or LDIY'')"

definition unknown_wallet_prompt :: screen where
  "unknown_wallet_prompt =
     Prompt ''Warning!''
       (NL @ ''Unknown wallet in inputs!'' @ NL @ NL @ NL
          @ ''Wallet for some inpunts is unknown! This means we can'' @ [CHR 0x27]
          @ ''t verify change addresses.'' @ NL @ NL @ NL
          @ ''Hint:'' @ NL
          @ ''You can cancel this transaction and import the wallet by scanning it''
          @ [CHR 0x27] @ ''s descriptor.'' @ NL @ NL @ NL
          @ ''Proceed to the transaction confirmation?'')
       None None"

text \<open>The labelling loop of lines 346-356: \<open>False\<close> when the user cancels an input screen,
  with the labels given before that already in the asset map.\<close>

fun label_assets :: "host \<Rightarrow> bytes list \<Rightarrow> (bytes, string) dict \<Rightarrow> (bytes, string) dict \<times> bool" where
  "label_assets H [] d = (d, True)"
| "label_assets H (a # rest) d =
     (case input_screen H (asset_input_screen H a) of
        None \<Rightarrow> (d, False)
      | Some lbl \<Rightarrow> label_assets H rest (AList.update a lbl d))"

text \<open>Lines 338-358: \<open>False\<close> where the source returns without a result.\<close>

definition label_unknown_assets ::
    "collab \<Rightarrow> sighash_flags \<Rightarrow> runtime \<Rightarrow> host \<Rightarrow> manager \<Rightarrow> wallet list \<Rightarrow> storage \<Rightarrow> psbt
      \<Rightarrow> (wallet option \<times> int) list \<times> meta
      \<Rightarrow> exn + bool \<times> manager \<times> storage \<times> (wallet option \<times> int) list \<times> meta" where
  "label_unknown_assets K S R H m ws fs p = (\<lambda>(wallets, mt).
     if length (unknown_assets mt) > 0 \<and> show_screen H unknown_asset_prompt then
       (case label_assets H (unknown_assets mt) (assets m) of
          (d, False) \<Rightarrow> Inr (False, m\<lparr>assets := d\<rparr>, fs, wallets, mt)
        | (d, True) \<Rightarrow>
            (let m' = m\<lparr>assets := d\<rparr> in
             case parse_psbt K S R m' ws p of
               Inl e \<Rightarrow> Inl e
             | Inr (wallets', mt') \<Rightarrow> Inr (True, m', save_assets m' fs, wallets', mt')))
     else Inr (True, m, fs, wallets, mt))"

text \<open>The title of the transaction screen (lines 372-379).\<close>

definition spending_title :: "host \<Rightarrow> (wallet option \<times> int) list \<Rightarrow> string" where
  "spending_title H wallets =
     ''Spending:'' @ NL @ join_lines (map (\<lambda>(w, amt).
        format_btc H amt @ '' BTC'' @ NL @ ''from '' @ [CHR 0x22]
          @ (case w of None \<Rightarrow> ''Unknown wallet'' | Some w \<Rightarrow> name w) @ [CHR 0x22]) wallets)"

text \<open>
  \<^verbatim>\<open>sign_psbt\<close> (lines 292-453).  The result is the reply stream (\<open>None\<close> where the source
  returns without a result) with the manager, the storage and the wallets saved as the
  call leaves them.
\<close>

definition sign_psbt ::
    "codec \<Rightarrow> sighash_flags \<Rightarrow> runtime \<Rightarrow> collab \<Rightarrow> crypto \<Rightarrow> signer \<Rightarrow> host
      \<Rightarrow> manager \<Rightarrow> wallet list \<Rightarrow> storage \<Rightarrow> stream \<Rightarrow> int
      \<Rightarrow> exn + stream option \<times> manager \<times> storage \<times> wallet list" where
  "sign_psbt C S R K X G H m ws fs stream encoding =
     (let liquid = is_liquid R (network m) in
      case decode C liquid encoding stream of
        Inl e \<Rightarrow> Inl e
      | Inr p0 \<Rightarrow>
     (case verify H p0 of
        Inl e \<Rightarrow> Inl e
      | Inr p \<Rightarrow>
     (case sighash_policy S (show_screen H) liquid p of
        Inl e \<Rightarrow> Inl e
      | Inr None \<Rightarrow> Inr (None, m, fs, [])
      | Inr (Some sighash) \<Rightarrow>
     (case parse_psbt K S R m ws p of
        Inl e \<Rightarrow> Inl e
      | Inr parsed \<Rightarrow>
     (case label_unknown_assets K S R H m ws fs p parsed of
        Inl e \<Rightarrow> Inl e
      | Inr (False, m1, fs1, wallets, mt) \<Rightarrow> Inr (None, m1, fs1, [])
      | Inr (True, m1, fs1, wallets, mt) \<Rightarrow>
          if None \<in> set (map fst wallets) \<and> \<not> show_screen H unknown_wallet_prompt
          then Inr (None, m1, fs1, [])
          else if show_screen H (TransactionScreen (spending_title H wallets) mt) then
            (case (if liquid then finalize X p else Inr p) of
               Inl e \<Rightarrow> Inl e
             | Inr pf \<Rightarrow>
                 (case sign_step G wallets sighash encoding pf of
                    Inl e \<Rightarrow> Inl e
                  | Inr (reply, saved) \<Rightarrow> Inr (Some reply, m1, fs1, saved)))
          else Inr (None, m1, fs1, []))))))"

text \<open>
  Instances for concrete runs: a codec that decodes every stream to a given container, a
  user who confirms every screen and labels nothing, with amounts shown with eight
  decimals, and a keystore whose signing moves the signatures of the first input to the
  second.
\<close>

definition fixed_codec :: "psbt \<Rightarrow> codec" where
  "fixed_codec P =
     \<lparr>a2b_base64_stream = (\<lambda>s. Inr (fst (read_all s))), read_from = (\<lambda>liquid s. Inr P)\<rparr>"

definition accepting_host :: host where
  "accepting_host =
     \<lparr>verify = Inr, show_screen = (\<lambda>scr. True), input_screen = (\<lambda>scr. None),
      format_addr = (\<lambda>a. a),
      format_btc = (\<lambda>n. str_nat (nat (n div 100000000)) @ ''.''
                        @ drop 1 (str_nat (nat (100000000 + n mod 100000000))))\<rparr>"

definition moving_signer :: signer where
  "moving_signer =
     one_key_signer\<lparr>keystore_sign_psbt := (\<lambda>p sh.
        Inr (p\<lparr>inputs :=
               (case inputs p of
                  a # b # rest \<Rightarrow>
                    a\<lparr>partial_sigs := []\<rparr>
                      # b\<lparr>partial_sigs := partial_sigs b @ partial_sigs a\<rparr> # rest
                | ins \<Rightarrow> ins)\<rparr>))\<rparr>"

definition signed_input :: psbt_in where
  "signed_input = (owned_input ''Default'' 0 0)\<lparr>partial_sigs := [(''pub'', ''sig'')]\<rparr>"

chapter \<open>Verified properties\<close>

section \<open>Persistence of asset labels\<close>

lemma assets_paths_differ: "save_assets_path m \<noteq> load_assets_path m"
proof
  assume "save_assets_path m = load_assets_path m"
  then have "length (save_assets_path m) = length (load_assets_path m)" by simp
  then show False by (simp add: save_assets_path_def load_assets_path_def)
qed

lemma load_after_save_no_effect: "load_assets m' (save_assets m Map.empty) = Inr m'"
  if "root_path m' = root_path m" "keystore_uid m' = keystore_uid m" "network m' = network m"
proof -
  have "load_assets_path m' = load_assets_path m"
    using that by (simp add: load_assets_path_def)
  then have "save_assets m Map.empty (load_assets_path m') = None"
    using assets_paths_differ [of m] by (simp add: save_assets_def)
  then show ?thesis by (simp add: load_assets_def)
qed

text \<open>
  C10.  The claim asks that \<^verbatim>\<open>save_assets\<close> and \<^verbatim>\<open>load_assets\<close> use the same storage path, so
  that a saved label comes back on the next load.  They do not: for the manager rooted at
  \<^verbatim>\<open>/flash/wallets\<close> with keystore uid \<^verbatim>\<open>abcd\<close> on network \<^verbatim>\<open>liquidv1\<close>, the label \<^verbatim>\<open>LDIY\<close> of asset
  \<^verbatim>\<open>01\<close> is written under \<^verbatim>\<open>/flash/wallets/uidabcd/liquidv1\<close>, the next load on a fresh manager
  of the same uid and network looks under \<^verbatim>\<open>/flash/wallets/abcd/liquidv1\<close>, finds no file
  and leaves the asset map without the label.
\<close>

theorem save_load_assets_paths_disagree:
  "save_assets_path \<lparr>root_path = ''/flash/wallets'', network = ''liquidv1'',
       keystore_uid = ''abcd'', assets = [(''01'', ''LDIY'')]\<rparr> = ''/flash/wallets/uidabcd/liquidv1''
   \<and> load_assets_path \<lparr>root_path = ''/flash/wallets'', network = ''liquidv1'',
       keystore_uid = ''abcd'', assets = []\<rparr> = ''/flash/wallets/abcd/liquidv1''
   \<and> load_assets \<lparr>root_path = ''/flash/wallets'', network = ''liquidv1'',
         keystore_uid = ''abcd'', assets = []\<rparr>
       (save_assets \<lparr>root_path = ''/flash/wallets'', network = ''liquidv1'',
         keystore_uid = ''abcd'', assets = [(''01'', ''LDIY'')]\<rparr> Map.empty)
     = Inr \<lparr>root_path = ''/flash/wallets'', network = ''liquidv1'',
         keystore_uid = ''abcd'', assets = []\<rparr>"
  by (simp add: save_assets_path_def load_assets_path_def load_assets_def save_assets_def)


section \<open>Asset label round trip\<close>

lemma lt16_cases: "n < (16::nat) \<Longrightarrow> n \<in> {0,1,2,3,4,5,6,7,8,9,10,11,12,13,14,15}"
  by (simp, arith)

lemma hex_val_hex_char: "n < 16 \<Longrightarrow> hex_val (hex_char n) = Some n"
  by (drule lt16_cases) (auto simp add: hex_val_def hex_char_def)

lemma unhex_pairs_hexlify: "unhex_pairs (hexlify bs) = Inr bs"
proof (induction bs)
  case Nil
  show ?case by (simp add: hexlify_def)
next
  case (Cons b bs)
  have d: "(of_char b :: nat) div 16 < 16"
    using nat_of_char_less_256 [of b] by arith
  have m: "(of_char b :: nat) mod 16 < 16" by simp
  have c: "char_of (16 * ((of_char b :: nat) div 16) + of_char b mod 16) = b" by simp
  have "hexlify (b # bs) = hex_char (of_char b div 16) # hex_char (of_char b mod 16) # hexlify bs"
    by (simp add: hexlify_def)
  then show ?case
    using Cons.IH by (simp add: hex_val_hex_char [OF d] hex_val_hex_char [OF m] c)
qed

lemma hexlify_inj: "hexlify a = hexlify b \<Longrightarrow> a = b"
  by (metis unhex_pairs_hexlify sum.inject(2))

lemma lower_hex_val: "lower_hex c \<Longrightarrow> \<exists>n<16. hex_val c = Some n \<and> hex_char n = c"
  unfolding lower_hex_def by (auto simp add: hex_val_def hex_char_def)

lemma hexlify_unhex_pairs:
  "even (length s) \<Longrightarrow> list_all lower_hex s \<Longrightarrow> \<exists>bs. unhex_pairs s = Inr bs \<and> hexlify bs = s"
proof (induction s rule: induct_list012)
  case (3 c d rest)
  from 3 obtain bs where bs: "unhex_pairs rest = Inr bs" "hexlify bs = rest" by auto
  from 3(4) obtain h where h: "h < 16" "hex_val c = Some h" "hex_char h = c"
    using lower_hex_val [of c] by auto
  from 3(4) obtain l where l: "l < 16" "hex_val d = Some l" "hex_char l = d"
    using lower_hex_val [of d] by auto
  have b: "of_char (char_of (16 * h + l) :: char) = 16 * h + l"
    using h(1) l(1) by simp
  have "hexlify (char_of (16 * h + l) # bs) = c # d # rest"
    using h l bs by (simp add: hexlify_def b)
  then show ?case using bs h l by simp
qed (simp_all add: hexlify_def)

lemma split_on_absent: "c \<notin> set xs \<Longrightarrow> split_on c xs = [xs]"
  by (induction xs) auto

lemma split_on_two: "c \<notin> set xs \<Longrightarrow> c \<notin> set ys \<Longrightarrow> split_on c (xs @ c # ys) = [xs, ys]"
  by (induction xs) (auto simp: split_on_absent)

lemma map_of_fold_update:
  "map_of (fold (\<lambda>(a, l) js. AList.update (f a) l js) d acc) x =
     (case map_of (rev (map (\<lambda>(a, l). (f a, l)) d)) x of
        Some v \<Rightarrow> Some v
      | None \<Rightarrow> map_of acc x)"
  by (induction d arbitrary: acc) (auto simp: update_conv' split: option.splits)

lemma assets_json_lookup:
  assumes "distinct (map fst d)" and "map_of d k = Some v"
  shows "map_of (assets_json d) (hexlify (rev k)) = Some v"
proof -
  let ?f = "\<lambda>a. hexlify (rev a)"
  have inj: "inj ?f" by (auto intro!: injI dest: hexlify_inj)
  have dist: "distinct (map fst (map (\<lambda>(a, l). (?f a, l)) d))"
    using assms(1) inj by (simp add: distinct_map comp_def case_prod_unfold inj_on_def)
  have "(k, v) \<in> set d" using assms(2) by (rule map_of_SomeD)
  then have "(?f k, v) \<in> set (rev (map (\<lambda>(a, l). (?f a, l)) d))" by force
  moreover have "distinct (map fst (rev (map (\<lambda>(a, l). (?f a, l)) d)))"
    using dist by (simp add: rev_map [symmetric])
  ultimately have "map_of (rev (map (\<lambda>(a, l). (?f a, l)) d)) (?f k) = Some v"
    by (rule map_of_is_SomeI [rotated])
  then show ?thesis by (simp add: assets_json_def map_of_fold_update)
qed

text \<open>
  C9 (as amended).  An \<^verbatim>\<open>addasset\<close> request whose payload decodes to a hex string \<open>h\<close> of
  \<^bold>\<open>lower-case\<close> digits and even length, one space and a label \<open>lbl\<close> without spaces, confirmed
  by the user on a manager whose asset map is a dictionary (distinct keys), replies
  \<^verbatim>\<open>success\<close>, stores the label under a key whose reversed bytes hexlify to \<open>h\<close>, and the
  following \<^verbatim>\<open>dumpassets\<close> request yields an object that maps \<open>h\<close> to \<open>lbl\<close>.
\<close>

theorem add_asset_then_dump:
  assumes "str_decode (fst (read_all s)) = Inr (h @ CHR '' '' # lbl)"
    and "even (length h)" and "list_all lower_hex h" and "CHR '' '' \<notin> set lbl"
    and "distinct (map fst (assets m))"
  shows "\<exists>key m' fs' js. add_asset str_decode True s m fs = Inr (BytesIO ''success'', m', fs')
           \<and> map_of (assets m') key = Some lbl \<and> hexlify (rev key) = h
           \<and> add_then_dump str_decode True s m fs = Inr js \<and> map_of js h = Some lbl"
proof -
  have "\<not> lower_hex CHR '' ''" by (simp add: lower_hex_def)
  then have "CHR '' '' \<notin> set h"
    using assms(3) unfolding list_all_iff by blast
  then have sp: "split_on CHR '' '' (h @ CHR '' '' # lbl) = [h, lbl]"
    using assms(4) by (simp add: split_on_two)
  obtain bs where bs: "unhex_pairs h = Inr bs" "hexlify bs = h"
    using hexlify_unhex_pairs [OF assms(2,3)] by blast
  then have un: "unhexlify h = Inr bs"
    using assms(2) by (simp add: unhexlify_def)
  let ?m = "m\<lparr>assets := AList.update (rev bs) lbl (assets m)\<rparr>"
  have add: "add_asset str_decode True s m fs = Inr (BytesIO ''success'', ?m, save_assets ?m fs)"
    by (simp add: add_asset_def assms(1) sp un Let_def)
  have look: "map_of (assets ?m) (rev bs) = Some lbl"
    by (simp add: update_conv')
  have "distinct (map fst (assets ?m))"
    using assms(5) by (simp add: distinct_update)
  then have "map_of (assets_json (assets ?m)) (hexlify (rev (rev bs))) = Some lbl"
    using look by (rule assets_json_lookup)
  then have "map_of (dump_assets ?m) h = Some lbl"
    using bs(2) by (simp add: dump_assets_def)
  then have "add_then_dump str_decode True s m fs = Inr (dump_assets ?m)
      \<and> map_of (dump_assets ?m) h = Some lbl"
    using add by (simp add: add_then_dump_def)
  moreover have "hexlify (rev (rev bs)) = h" using bs(2) by simp
  ultimately show ?thesis using add look by blast
qed

theorem add_asset_then_dump_witness:
  "utf8_decode (fst (read_all (BytesIO ''00ff LBTC''))) = Inr (''00ff'' @ CHR '' '' # ''LBTC'')
   \<and> even (length ''00ff'') \<and> list_all lower_hex ''00ff'' \<and> CHR '' '' \<notin> set ''LBTC''
   \<and> distinct (map fst default_assets)
   \<and> (\<exists>key m' fs' js.
         add_asset utf8_decode True (BytesIO ''00ff LBTC'')
           \<lparr>root_path = ''/flash/wallets'', network = ''liquidv1'', keystore_uid = ''abcd'',
              assets = default_assets\<rparr> Map.empty = Inr (BytesIO ''success'', m', fs')
         \<and> map_of (assets m') key = Some ''LBTC'' \<and> hexlify (rev key) = ''00ff''
         \<and> add_then_dump utf8_decode True (BytesIO ''00ff LBTC'')
              \<lparr>root_path = ''/flash/wallets'', network = ''liquidv1'', keystore_uid = ''abcd'',
                 assets = default_assets\<rparr> Map.empty = Inr js
         \<and> map_of js ''00ff'' = Some ''LBTC'')"
proof -
  have h1: "utf8_decode (fst (read_all (BytesIO ''00ff LBTC''))) = Inr (''00ff'' @ CHR '' '' # ''LBTC'')"
    by (simp add: read_all_def BytesIO_def Let_def utf8_decode_def)
  have h2: "even (length ''00ff'')" by simp
  have h3: "list_all lower_hex ''00ff''" by (simp add: lower_hex_def)
  have h4: "CHR '' '' \<notin> set ''LBTC''" by simp
  have h5: "distinct (map fst (assets \<lparr>root_path = ''/flash/wallets'', network = ''liquidv1'',
      keystore_uid = ''abcd'', assets = default_assets\<rparr>))"
    by (simp add: default_assets_def)
  from h5 have h5': "distinct (map fst default_assets)" by simp
  show ?thesis
    using add_asset_then_dump [where str_decode = utf8_decode and s = "BytesIO ''00ff LBTC''"
        and h = "''00ff''" and lbl = "''LBTC''" and fs = Map.empty, OF h1 h2 h3 h4 h5]
      h1 h2 h3 h4 h5' by blast
qed

text \<open>The claim as stated fails for a hex string with upper-case digits: the 32-byte asset
  id sent as \<^verbatim>\<open>ABAB...AB\<close> with label \<^verbatim>\<open>LDIY\<close> is dumped under the key \<^verbatim>\<open>abab...ab\<close>, so
  the dumped object has no entry for the string that was imported.\<close>

theorem add_asset_uppercase_counterexample:
  "add_then_dump utf8_decode True
      (BytesIO ''ABABABABABABABABABABABABABABABABABABABABABABABABABABABABABABABAB LDIY'')
      \<lparr>root_path = ''/flash/wallets'', network = ''liquidv1'', keystore_uid = ''abcd'',
         assets = default_assets\<rparr> Map.empty
   = Inr [(''230164e2d3ff2c88cc0739e56a3501c979fe131fd07944e8a609323ef26c6918'', ''tBTC''),
          (''abababababababababababababababababababababababababababababababab'', ''LDIY'')]"
  by code_simp

text \<open>A payload that is no text is rejected by the decoding, before the prompt and before
  anything is stored: here a label that is the single byte \<^verbatim>\<open>0xFF\<close>.\<close>

lemma add_asset_undecodable:
  "add_asset utf8_decode True (BytesIO (''00ff '' @ [CHR 0xFF])) m fs = Inl UnicodeError"
  by (simp add: add_asset_def utf8_decode_def read_all_def BytesIO_def Let_def)

section \<open>Classification of a wallet descriptor\<close>




section \<open>Decode failures\<close>

lemma decode_wrong_magic:
  assumes "try_decode C liquid encoding stream = Inl e"
    and "exn_args e = AStr ''Invalid PSBT magic'' # rest"
  shows "decode C liquid encoding stream =
     Inl (WalletError (''Wrong transaction type! Switch to ''
        @ (if liquid then ''Bitcoin'' else ''Liquid'') @ '' network to sign PSBT!''))"
  using assms by (simp add: decode_def)

lemma decode_other_cause:
  assumes "try_decode C liquid encoding stream = Inl e"
    and "exn_args e = a # rest" and "a \<noteq> AStr ''Invalid PSBT magic''"
  shows "decode C liquid encoding stream = Inl e"
  using assms by (simp add: decode_def)

lemma decode_no_args:
  assumes "try_decode C liquid encoding stream = Inl e" and "exn_args e = []"
  shows "decode C liquid encoding stream = Inl (IndexError ''tuple index out of range'')"
  using assms by (simp add: decode_def)

text \<open>
  C7.  The claim asks that every decode failure other than a wrong magic propagates
  unchanged.  A failure whose exception has an empty \<^verbatim>\<open>args\<close> tuple (a bare \<^verbatim>\<open>assert\<close>, a
  \<^verbatim>\<open>MemoryError()\<close>) does not: the handler's \<^verbatim>\<open>e.args[0]\<close> raises \<^verbatim>\<open>IndexError\<close>, on either
  encoding, and the original exception is replaced.
\<close>

theorem decode_args_less_failure_replaced:
  "decode (failing_codec AssertionError) True RAW_STREAM (BytesIO ''pset'')
     = Inl (IndexError ''tuple index out of range'')
   \<and> decode (failing_codec (Exn ''MemoryError'' [])) False BASE64_STREAM (BytesIO ''cHNidP8BAA=='')
     = Inl (IndexError ''tuple index out of range'')
   \<and> IndexError ''tuple index out of range'' \<noteq> AssertionError
   \<and> IndexError ''tuple index out of range'' \<noteq> Exn ''MemoryError'' []"
  by (simp add: decode_def try_decode_def failing_codec_def AssertionError_def IndexError_def
      RAW_STREAM_def BASE64_STREAM_def)


section \<open>Custom sighash flags\<close>

lemma for_loop_append:
  "for_loop f (xs @ ys) s =
     (case for_loop f xs s of Inl e \<Rightarrow> Inl e | Inr s' \<Rightarrow> for_loop f ys s')"
  by (induction xs arbitrary: s) (auto split: sum.splits)

lemma enumerate_snoc: "enumerate_list (xs @ [x]) = enumerate_list xs @ [(length xs, x)]"
  by (simp add: enumerate_list_def)









section \<open>Gap bounds\<close>

lemma raise_row:
  assumes "b < length row"
  shows "(if row ! b < (v::int) then row[b := v] else row) = row[b := max (row ! b) v]"
proof (cases "row ! b < v")
  case True
  then show ?thesis by (simp add: max_def)
next
  case False
  then have "max (row ! b) v = row ! b" by (simp add: max_def)
  then show ?thesis using False by simp
qed

lemma raise_gap_Inr:
  assumes "raise_gap K p x (i, w) g = Inr g'"
  shows "length g' = length g \<and> (\<forall>j<length g. g' ! j = (if j = i then step_row K p x w (g ! j) else g ! j))"
proof (cases w)
  case None
  then show ?thesis using assms by (cases x) (simp add: raise_gap_def step_row_def)
next
  case (Some wl)
  obtain inidx inp where x: "x = (inidx, inp)" by (cases x)
  obtain br idx where d: "get_derivation K wl (bip32_derivations inp) = (br, idx)"
    by (cases "get_derivation K wl (bip32_derivations inp)")
  show ?thesis
  proof (cases "owns_input K p wl x")
    case False
    then show ?thesis
      using assms Some x by (simp add: raise_gap_def step_row_def owns_input_def)
  next
    case True
    then have ok: "i < length g" "br < length (g ! i)"
      and g': "g' = g[i := (if g ! i ! br < int idx + GAP_LIMIT wl
                          then (g ! i)[br := int idx + GAP_LIMIT wl] else g ! i)]"
      using assms Some x d
      by (auto simp add: raise_gap_def owns_input_def split: if_splits)
    have "step_row K p x w (g ! i) = (g ! i)[br := max (g ! i ! br) (int idx + GAP_LIMIT wl)]"
      using True Some x d by (simp add: step_row_def input_branch_def input_bound_def)
    then have "step_row K p x w (g ! i) =
        (if g ! i ! br < int idx + GAP_LIMIT wl then (g ! i)[br := int idx + GAP_LIMIT wl] else g ! i)"
      using raise_row [OF ok(2)] by simp
    then show ?thesis using g' ok(1) by (simp add: nth_list_update)
  qed
qed

lemma inner_loop:
  assumes "for_loop (raise_gap K p x) (enumerate_list ws) g = Inr g'"
  shows "length g' = length g \<and>
     (\<forall>j<length g. g' ! j = (if j < length ws then step_row K p x (ws ! j) (g ! j) else g ! j))"
  using assms
proof (induction ws arbitrary: g' rule: rev_induct)
  case Nil
  then show ?case by (simp add: enumerate_list_def)
next
  case (snoc w ws)
  from snoc.prems obtain g1 where g1: "for_loop (raise_gap K p x) (enumerate_list ws) g = Inr g1"
    and st: "raise_gap K p x (length ws, w) g1 = Inr g'"
    by (auto simp add: enumerate_snoc for_loop_append split: sum.splits)
  note ih = snoc.IH [OF g1]
  note r = raise_gap_Inr [OF st]
  show ?case
    using ih r by (auto simp add: nth_append)
qed

lemma outer_loop:
  assumes "for_loop (\<lambda>x g. for_loop (raise_gap K p x) (enumerate_list ws) g) xs g0 = Inr g"
    and "length g0 = length ws"
  shows "length g = length ws \<and>
     (\<forall>j<length ws. g ! j = fold (\<lambda>x row. step_row K p x (ws ! j) row) xs (g0 ! j))"
  using assms
proof (induction xs arbitrary: g0)
  case Nil
  then show ?case by simp
next
  case (Cons x xs)
  from Cons.prems(1) obtain g1 where g1: "for_loop (raise_gap K p x) (enumerate_list ws) g0 = Inr g1"
    and rest: "for_loop (\<lambda>x g. for_loop (raise_gap K p x) (enumerate_list ws) g) xs g1 = Inr g"
    by (auto split: sum.splits)
  note i = inner_loop [OF g1]
  have l1: "length g1 = length ws" using i Cons.prems(2) by simp
  note ih = Cons.IH [OF rest l1]
  show ?case using ih i Cons.prems(2) by simp
qed

lemma fold_step_row:
  "length (fold (\<lambda>x row. step_row K p x (Some w) row) xs row) = length row \<and>
   (b < length row \<longrightarrow> fold (\<lambda>x row. step_row K p x (Some w) row) xs row ! b =
     fold max (map (input_bound K w) (filter (\<lambda>x. owns_input K p w x \<and> input_branch K w x = b) xs)) (row ! b))"
proof (induction xs arbitrary: row)
  case Nil
  show ?case by simp
next
  case (Cons x xs)
  show ?case
    using Cons [of "step_row K p x (Some w) row"]
    by (auto simp add: step_row_def nth_list_update max.commute)
qed

lemma fold_step_row_None: "fold (\<lambda>x row. step_row K p x None row) xs row = row"
  by (induction xs) (auto simp: step_row_def)

lemma fold_max_ge: "(a::int) \<le> fold max xs a"
  by (induction xs arbitrary: a) (auto intro: order_trans [OF max.cobounded2])

text \<open>The gap pass returns whenever every input that a matched wallet owns lies on a
  branch for which the wallet has a persisted bound; otherwise it raises \<^verbatim>\<open>IndexError\<close>.\<close>

lemma raise_gap_returns:
  assumes "i < length g"
    and "\<And>wl. w = Some wl \<Longrightarrow> owns_input K p wl x \<Longrightarrow> input_branch K wl x < length (g ! i)"
  shows "\<exists>g'. raise_gap K p x (i, w) g = Inr g' \<and> length g' = length g
           \<and> (\<forall>j<length g. length (g' ! j) = length (g ! j))"
proof (cases w)
  case None
  then show ?thesis by (cases x) (simp add: raise_gap_def)
next
  case (Some wl)
  obtain inidx inp where x: "x = (inidx, inp)" by (cases x)
  obtain br idx where d: "get_derivation K wl (bip32_derivations inp) = (br, idx)"
    by (cases "get_derivation K wl (bip32_derivations inp)")
  show ?thesis
  proof (cases "owns_input K p wl x")
    case False
    then show ?thesis using Some x by (simp add: raise_gap_def owns_input_def)
  next
    case True
    then have "br < length (g ! i)"
      using assms(2) [OF Some True] x d by (simp add: input_branch_def)
    then show ?thesis
      using True Some x d assms(1)
      by (auto simp add: raise_gap_def owns_input_def nth_list_update)
  qed
qed

lemma inner_returns:
  assumes "length ws \<le> length g"
    and "\<And>i wl. i < length ws \<Longrightarrow> ws ! i = Some wl \<Longrightarrow> owns_input K p wl x
           \<Longrightarrow> input_branch K wl x < length (g ! i)"
  shows "\<exists>g'. for_loop (raise_gap K p x) (enumerate_list ws) g = Inr g' \<and> length g' = length g
           \<and> (\<forall>j<length g. length (g' ! j) = length (g ! j))"
  using assms
proof (induction ws rule: rev_induct)
  case Nil
  then show ?case by (simp add: enumerate_list_def)
next
  case (snoc w ws)
  have "\<exists>g1. for_loop (raise_gap K p x) (enumerate_list ws) g = Inr g1 \<and> length g1 = length g
           \<and> (\<forall>j<length g. length (g1 ! j) = length (g ! j))"
  proof (rule snoc.IH)
    show "length ws \<le> length g" using snoc.prems(1) by simp
    fix i wl assume "i < length ws" "ws ! i = Some wl" "owns_input K p wl x"
    then show "input_branch K wl x < length (g ! i)"
      using snoc.prems(2) [of i wl] by (simp add: nth_append)
  qed
  then obtain g1 where g1: "for_loop (raise_gap K p x) (enumerate_list ws) g = Inr g1"
    "length g1 = length g" "\<forall>j<length g. length (g1 ! j) = length (g ! j)" by blast
  have lt: "length ws < length g1" using snoc.prems(1) g1(2) by simp
  have "\<exists>g'. raise_gap K p x (length ws, w) g1 = Inr g' \<and> length g' = length g1
           \<and> (\<forall>j<length g1. length (g' ! j) = length (g1 ! j))"
  proof (rule raise_gap_returns [OF lt])
    fix wl assume "w = Some wl" "owns_input K p wl x"
    then have "input_branch K wl x < length (g ! length ws)"
      using snoc.prems(2) [of "length ws" wl] by simp
    then show "input_branch K wl x < length (g1 ! length ws)"
      using g1(3) lt g1(2) by simp
  qed
  then obtain g' where g': "raise_gap K p x (length ws, w) g1 = Inr g'" "length g' = length g1"
    "\<forall>j<length g1. length (g' ! j) = length (g1 ! j)" by blast
  have "for_loop (raise_gap K p x) (enumerate_list (ws @ [w])) g = Inr g'"
    using g1(1) g'(1) by (simp add: enumerate_snoc for_loop_append)
  then show ?case using g1 g' by simp
qed

lemma outer_returns:
  assumes "length ws = length g"
    and "\<And>x i wl. x \<in> set xs \<Longrightarrow> i < length ws \<Longrightarrow> ws ! i = Some wl \<Longrightarrow> owns_input K p wl x
           \<Longrightarrow> input_branch K wl x < length (g ! i)"
  shows "\<exists>g'. for_loop (\<lambda>x g. for_loop (raise_gap K p x) (enumerate_list ws) g) xs g = Inr g'"
  using assms
proof (induction xs arbitrary: g)
  case Nil
  show ?case by simp
next
  case (Cons x xs)
  have "\<exists>g1. for_loop (raise_gap K p x) (enumerate_list ws) g = Inr g1 \<and> length g1 = length g
           \<and> (\<forall>j<length g. length (g1 ! j) = length (g ! j))"
  proof (rule inner_returns)
    show "length ws \<le> length g" using Cons.prems(1) by simp
    fix i wl assume "i < length ws" "ws ! i = Some wl" "owns_input K p wl x"
    then show "input_branch K wl x < length (g ! i)"
      using Cons.prems(2) [of x i wl] by simp
  qed
  then obtain g1 where g1: "for_loop (raise_gap K p x) (enumerate_list ws) g = Inr g1"
    "length g1 = length g" "\<forall>j<length g. length (g1 ! j) = length (g ! j)" by blast
  have "\<exists>g'. for_loop (\<lambda>x g. for_loop (raise_gap K p x) (enumerate_list ws) g) xs g1 = Inr g'"
  proof (rule Cons.IH)
    show "length ws = length g1" using Cons.prems(1) g1(2) by simp
    fix y i wl assume "y \<in> set xs" "i < length ws" "ws ! i = Some wl" "owns_input K p wl y"
    then show "input_branch K wl y < length (g1 ! i)"
      using Cons.prems(2) [of y i wl] g1(3) Cons.prems(1) by simp
  qed
  then show ?case using g1(1) by simp
qed

lemma raise_gaps_returns:
  assumes "\<And>x i wl. x \<in> set (enumerate_list (inputs p)) \<Longrightarrow> i < length wallets
      \<Longrightarrow> wallets ! i = Some wl \<Longrightarrow> owns_input K p wl x \<Longrightarrow> input_branch K wl x < length (gaps wl)"
  shows "\<exists>g. raise_gaps K p wallets = Inr g"
  unfolding raise_gaps_def
proof (rule outer_returns)
  show "length wallets = length (init_gaps wallets)" by (simp add: init_gaps_def)
  fix x i wl
  assume "x \<in> set (enumerate_list (inputs p))" "i < length wallets" "wallets ! i = Some wl"
    "owns_input K p wl x"
  then show "input_branch K wl x < length (init_gaps wallets ! i)"
    using assms [of x i wl] by (simp add: init_gaps_def)
qed

text \<open>The bounds that the gap pass returns: for a matched wallet and a branch of its
  persisted bounds, the maximum of the persisted bound and the bounds of the owned inputs.\<close>

lemma raise_gaps_row:
  assumes "raise_gaps K p wallets = Inr g" and "i < length wallets" and "wallets ! i = Some w"
    and "b < length (gaps w)"
  shows "length (g ! i) = length (gaps w) \<and> gaps w ! b \<le> g ! i ! b
    \<and> g ! i ! b = Max (set (gaps w ! b # owned_bounds K p w b))"
proof -
  have l0: "length (init_gaps wallets) = length wallets" by (simp add: init_gaps_def)
  have o: "g ! i = fold (\<lambda>x row. step_row K p x (wallets ! i) row) (enumerate_list (inputs p)) (init_gaps wallets ! i)"
    using outer_loop [OF assms(1) [unfolded raise_gaps_def] l0] assms(2) by simp
  have r0: "init_gaps wallets ! i = gaps w" using assms(2,3) by (simp add: init_gaps_def)
  have gi: "g ! i = fold (\<lambda>x row. step_row K p x (Some w) row) (enumerate_list (inputs p)) (gaps w)"
    using o r0 assms(3) by simp
  have len: "length (g ! i) = length (gaps w)" unfolding gi using fold_step_row by blast
  have v: "g ! i ! b = fold max (owned_bounds K p w b) (gaps w ! b)"
    unfolding gi owned_bounds_def using fold_step_row [of K p w "enumerate_list (inputs p)" "gaps w" b] assms(4) by blast
  have ge: "gaps w ! b \<le> g ! i ! b" unfolding v by (rule fold_max_ge)
  have "Max (set (gaps w ! b # owned_bounds K p w b)) = fold max (owned_bounds K p w b) (gaps w ! b)"
    by (rule Max.set_eq_fold)
  then show ?thesis using len ge v by (simp only:)
qed

text \<open>
  C4.  Whenever \<^verbatim>\<open>parse_psbt\<close> returns, the change-output check that produced the returned
  metadata ran with the bounds \<open>g\<close> of the gap pass over the wallets matched by the input
  loop, and for every matched wallet \<open>w\<close> (entry \<open>i\<close> of \<^verbatim>\<open>wallets\<close>) and every branch \<open>b\<close>
  of its persisted bounds, the effective bound \<open>g ! i ! b\<close> is at least the persisted bound
  \<open>gaps w ! b\<close>, and it is the maximum of the persisted bound and the bounds
  \<open>idx + GAP_LIMIT\<close> of the inputs of this transaction that \<open>w\<close> owns on branch \<open>b\<close>:
  raised by inputs only, never lowered.
\<close>

theorem parse_psbt_gap_bounds:
  assumes "parse_psbt K S R m ws p = Inr (spends, mt)"
  shows "\<exists>mt0 mt1 mt3 wallets amounts g.
      init_meta K R m p = Inr mt0
    \<and> for_loop (input_step K S R m ws p) (enumerate_list (inputs p)) (mt0, [], [])
         = Inr (mt1, wallets, amounts)
    \<and> spends = zip wallets amounts
    \<and> for_loop (output_step K R m p wallets) (enumerate_list (outputs p))
         (if None \<in> set wallets
          then mt1\<lparr>warnings := warnings mt1 @ [''Unknown wallet in input!'']\<rparr> else mt1) = Inr mt3
    \<and> raise_gaps K p wallets = Inr g
    \<and> for_loop (gap_step K p wallets g) (enumerate_list (outputs p)) mt3 = Inr mt
    \<and> (\<forall>i w b. i < length wallets \<and> wallets ! i = Some w \<and> b < length (gaps w) \<longrightarrow>
           gaps w ! b \<le> g ! i ! b
         \<and> g ! i ! b = Max (set (gaps w ! b # owned_bounds K p w b)))"
proof -
  from assms obtain mt0 where m0: "init_meta K R m p = Inr mt0"
    by (auto simp add: parse_psbt_def split: sum.splits)
  from assms m0 obtain mt1 wallets amounts where
    lp: "for_loop (input_step K S R m ws p) (enumerate_list (inputs p)) (mt0, [], [])
         = Inr (mt1, wallets, amounts)"
    by (auto simp add: parse_psbt_def split: sum.splits)
  let ?mt2 = "if None \<in> set wallets
          then mt1\<lparr>warnings := warnings mt1 @ [''Unknown wallet in input!'']\<rparr> else mt1"
  from assms m0 lp have few: "\<not> length wallets > 1"
    by (auto simp add: parse_psbt_def Let_def split: if_splits)
  from assms m0 lp few obtain mt3 where
    o: "for_loop (output_step K R m p wallets) (enumerate_list (outputs p)) ?mt2 = Inr mt3"
    by (auto simp add: parse_psbt_def Let_def split: sum.splits if_splits)
  from assms m0 lp few o obtain g where g: "raise_gaps K p wallets = Inr g"
    by (auto simp add: parse_psbt_def Let_def split: sum.splits if_splits)
  from assms m0 lp few o g have
    c: "for_loop (gap_step K p wallets g) (enumerate_list (outputs p)) mt3 = Inr mt"
    and z: "spends = zip wallets amounts"
    by (auto simp add: parse_psbt_def Let_def split: sum.splits if_splits)
  have b: "\<forall>i w b. i < length wallets \<and> wallets ! i = Some w \<and> b < length (gaps w) \<longrightarrow>
           gaps w ! b \<le> g ! i ! b
         \<and> g ! i ! b = Max (set (gaps w ! b # owned_bounds K p w b))"
    using raise_gaps_row [OF g] by blast
  show ?thesis using m0 lp z o g c b by blast
qed

theorem parse_psbt_gap_bounds_witness:
  "parse_psbt fp_collab LSIGHASH liquid_runtime liquid_manager [test_wallet ''Default'']
       raised_bound_psbt
     = Inr ([(Some (test_wallet ''Default''), 100000)],
         \<lparr>meta_inputs =
            [\<lparr>mi_asset = Some ''LBTC'', mi_label = Some ''Default change 30'',
              mi_value = Some 100000, mi_sighash = Some ''ALL''\<rparr>],
          meta_outputs =
            [\<lparr>mo_address = ''7331'', mo_value = 5, mo_change = True,
              mo_asset = Some ''LBTC'', mo_label = Some ''Default change 45''\<rparr>,
             \<lparr>mo_address = ''7332'', mo_value = 6, mo_change = True,
              mo_asset = Some ''LBTC'', mo_label = Some ''Default change 60''\<rparr>],
          meta_fee = 1000,
          warnings = [''Address index 60 is beyond the gap limit!''],
          unknown_assets = []\<rparr>)
   \<and> raise_gaps fp_collab raised_bound_psbt [Some (test_wallet ''Default'')] = Inr [[20, 50]]
   \<and> gaps (test_wallet ''Default'') = [20, 20]
   \<and> owned_bounds fp_collab raised_bound_psbt (test_wallet ''Default'') 1 = [50]
   \<and> gaps (test_wallet ''Default'') ! 1 \<le> [[20, 50 :: int]] ! 0 ! 1
   \<and> [[20, 50 :: int]] ! 0 ! 1
       = Max (set (gaps (test_wallet ''Default'') ! 1
           # owned_bounds fp_collab raised_bound_psbt (test_wallet ''Default'') 1))
   \<and> (\<exists>mt3. for_loop (gap_step fp_collab raised_bound_psbt [Some (test_wallet ''Default'')]
                  [[20, 50]])
              (enumerate_list (outputs raised_bound_psbt)) mt3
         = Inr \<lparr>meta_inputs =
            [\<lparr>mi_asset = Some ''LBTC'', mi_label = Some ''Default change 30'',
              mi_value = Some 100000, mi_sighash = Some ''ALL''\<rparr>],
          meta_outputs =
            [\<lparr>mo_address = ''7331'', mo_value = 5, mo_change = True,
              mo_asset = Some ''LBTC'', mo_label = Some ''Default change 45''\<rparr>,
             \<lparr>mo_address = ''7332'', mo_value = 6, mo_change = True,
              mo_asset = Some ''LBTC'', mo_label = Some ''Default change 60''\<rparr>],
          meta_fee = 1000,
          warnings = [''Address index 60 is beyond the gap limit!''],
          unknown_assets = []\<rparr>)"
proof -
  let ?w = "test_wallet ''Default''"
  let ?p = "raised_bound_psbt"
  let ?final = "\<lparr>meta_inputs =
            [\<lparr>mi_asset = Some ''LBTC'', mi_label = Some ''Default change 30'',
              mi_value = Some 100000, mi_sighash = Some ''ALL''\<rparr>],
          meta_outputs =
            [\<lparr>mo_address = ''7331'', mo_value = 5, mo_change = True,
              mo_asset = Some ''LBTC'', mo_label = Some ''Default change 45''\<rparr>,
             \<lparr>mo_address = ''7332'', mo_value = 6, mo_change = True,
              mo_asset = Some ''LBTC'', mo_label = Some ''Default change 60''\<rparr>],
          meta_fee = 1000,
          warnings = [''Address index 60 is beyond the gap limit!''],
          unknown_assets = []\<rparr>"
  let ?init = "\<lparr>meta_inputs =
            [\<lparr>mi_asset = None, mi_label = None, mi_value = None, mi_sighash = None\<rparr>],
          meta_outputs =
            [\<lparr>mo_address = ''7331'', mo_value = 5, mo_change = False,
              mo_asset = None, mo_label = None\<rparr>,
             \<lparr>mo_address = ''7332'', mo_value = 6, mo_change = False,
              mo_asset = None, mo_label = None\<rparr>],
          meta_fee = 1000, warnings = [], unknown_assets = []\<rparr>"
  let ?fed = "?init\<lparr>meta_inputs :=
            [\<lparr>mi_asset = Some ''LBTC'', mi_label = Some ''Default change 30'',
              mi_value = Some 100000, mi_sighash = Some ''ALL''\<rparr>]\<rparr>"
  have h1: "parse_psbt fp_collab LSIGHASH liquid_runtime liquid_manager [?w] ?p
      = Inr ([(Some ?w, 100000)], ?final)"
    by code_simp
  have i0: "init_meta fp_collab liquid_runtime liquid_manager ?p = Inr ?init" by code_simp
  have i1: "for_loop (input_step fp_collab LSIGHASH liquid_runtime liquid_manager [?w] ?p)
       (enumerate_list (inputs ?p)) (?init, [], []) = Inr (?fed, [Some ?w], [100000])"
    by code_simp
  have rg: "raise_gaps fp_collab ?p [Some ?w] = Inr [[20, 50]]" by code_simp
  have gw: "gaps ?w = [20, 20]" by (simp add: test_wallet_def)
  have ob: "owned_bounds fp_collab ?p ?w 1 = [50]" by code_simp
  from parse_psbt_gap_bounds [OF h1] obtain mt0 mt1 mt3 wallets amounts g where
      a0: "init_meta fp_collab liquid_runtime liquid_manager ?p = Inr mt0"
    and a1: "for_loop (input_step fp_collab LSIGHASH liquid_runtime liquid_manager [?w] ?p)
       (enumerate_list (inputs ?p)) (mt0, [], []) = Inr (mt1, wallets, amounts)"
    and a2: "raise_gaps fp_collab ?p wallets = Inr g"
    and a3: "for_loop (gap_step fp_collab ?p wallets g) (enumerate_list (outputs ?p)) mt3 = Inr ?final"
    and a4: "\<forall>i w b. i < length wallets \<and> wallets ! i = Some w \<and> b < length (gaps w) \<longrightarrow>
           gaps w ! b \<le> g ! i ! b
         \<and> g ! i ! b = Max (set (gaps w ! b # owned_bounds fp_collab ?p w b))"
    by blast
  have e0: "mt0 = ?init" using a0 i0 by simp
  have e1: "wallets = [Some ?w]" using a1 i1 unfolding e0 by simp
  have e2: "g = [[20, 50]]" using a2 rg unfolding e1 by simp
  have b: "gaps ?w ! 1 \<le> [[20, 50 :: int]] ! 0 ! 1
     \<and> [[20, 50 :: int]] ! 0 ! 1 = Max (set (gaps ?w ! 1 # owned_bounds fp_collab ?p ?w 1))"
    using a4 [rule_format, of 0 ?w 1] gw unfolding e1 e2 by simp
  have c: "\<exists>mt3. for_loop (gap_step fp_collab ?p [Some ?w] [[20, 50]])
      (enumerate_list (outputs ?p)) mt3 = Inr ?final"
    using a3 unfolding e1 e2 by blast
  show ?thesis using h1 rg gw ob b c by simp
qed

section \<open>Warnings of \<^verbatim>\<open>parse_psbt\<close>\<close>

lemma parse_psbt_mixed_raises:
  assumes "init_meta K R m p = Inr mt0"
    and "for_loop (input_step K S R m ws p) (enumerate_list (inputs p)) (mt0, [], [])
           = Inr (mt1, wallets, amounts)"
    and "length wallets > 1"
  shows "parse_psbt K S R m ws p =
     Inl (NameError (''name '' @ [CHR 0x27] @ ''warnings'' @ [CHR 0x27] @ '' is not defined''))"
  using assms by (simp add: parse_psbt_def)

text \<open>
  C5.  The claim asks for a normal return with a mixed-inputs warning when the inputs
  belong to more than one known wallet.  On the plain network, with the wallets
  \<^verbatim>\<open>Default\<close> and \<^verbatim>\<open>Savings\<close> stored and a transaction with one input of each,
  \<^verbatim>\<open>parse_psbt\<close> raises \<^verbatim>\<open>NameError\<close> instead: line 725 appends to \<^verbatim>\<open>warnings\<close>, not to
  \<^verbatim>\<open>meta["warnings"]\<close>.
\<close>

theorem parse_psbt_two_wallets_raises:
  "parse_psbt fp_collab LSIGHASH no_prefix_runtime main_manager
      [test_wallet ''Default'', test_wallet ''Savings'']
      (psbt_of_inputs [owned_input ''Default'' 0 0, owned_input ''Savings'' 0 3])
   = Inl (NameError (''name '' @ [CHR 0x27] @ ''warnings'' @ [CHR 0x27] @ '' is not defined''))"
  by code_simp

text \<open>
  C3.  The claim asks for at most one gap-limit warning per transaction.  On the
  confidential network, with the wallet \<^verbatim>\<open>Default\<close> (bounds 20 and 20, gap limit 20), one
  input at index 0 of branch 0 and two change outputs at indices 50 and 60 of branch 1,
  \<^verbatim>\<open>parse_psbt\<close> returns two such warnings: the \<^verbatim>\<open>break\<close> of line 781 leaves the loop over
  wallets, and the loop over outputs goes on.
\<close>

theorem parse_psbt_two_gap_warnings:
  "map_sum id (\<lambda>(spends, mt). warnings mt)
      (parse_psbt fp_collab LSIGHASH liquid_runtime liquid_manager [test_wallet ''Default'']
         two_change_psbt)
   = Inr [''Address index 50 is beyond the gap limit!'',
          ''Address index 60 is beyond the gap limit!'']"
  by code_simp


section \<open>Confidential finalization\<close>

lemma finalize_step_existing_proof:
  assumes "map_of (unknown out) nonce_key = None" and "truthy (range_proof out)"
  shows "finalize_step X p (i, out) (h, None, outs) =
     Inl (UnboundLocalError (''local variable '' @ [CHR 0x27] @ ''proof'' @ [CHR 0x27]
            @ '' referenced before assignment''))"
  using assms by (simp add: finalize_step_def)

lemma finalize_step_absent_proof:
  assumes "map_of (unknown out) nonce_key = None" and "\<not> truthy (range_proof out)"
  shows "finalize_step X p (i, out) (h, prf, outs) = Inr (h @ [CHR 0x00, CHR 0x00], prf, outs @ [out])"
  using assms by (simp add: finalize_step_def)

lemma finalize_step_unbound:
  assumes "finalize_step X p x (h, None, outs) = Inr (h', prf, outs')"
  shows "prf = None"
  using assms
  by (cases x) (auto simp add: finalize_step_def Let_def split: option.splits if_splits sum.splits)

lemma finalize_loop_unbound:
  assumes "for_loop (finalize_step X p) xs (h, None, outs) = Inr (h', prf, outs')"
  shows "prf = None"
  using assms
proof (induction xs arbitrary: h outs)
  case Nil
  then show ?case by simp
next
  case (Cons x xs)
  from Cons.prems obtain h1 p1 o1 where s1: "finalize_step X p x (h, None, outs) = Inr (h1, p1, o1)"
    and rest: "for_loop (finalize_step X p) xs (h1, p1, o1) = Inr (h', prf, outs')"
    by (auto split: sum.splits)
  have "p1 = None" using s1 by (rule finalize_step_unbound)
  then show ?case using Cons.IH rest by simp
qed

text \<open>
  C2.  The claim asks that an output without the device-nonce field and with a range
  proof has its own proofs folded into the digest.  For the transaction with one such
  output (and for one where it follows an output whose proof was regenerated) the pass
  raises \<^verbatim>\<open>UnboundLocalError\<close> (\<^verbatim>\<open>NameError\<close> on MicroPython) and folds nothing: line 392
  reads the local \<^verbatim>\<open>proof\<close>, which
  is unbound at the start of every iteration (\<open>finalize_loop_unbound\<close>), not
  \<^verbatim>\<open>out.range_proof\<close>.  The other half holds: without a range proof the two zero bytes are
  folded (\<open>finalize_step_absent_proof\<close>).
\<close>

theorem finalize_existing_proof_raises:
  "finalize fixed_crypto
      \<lparr>vout = [\<lparr>script_pubkey = ''s1'', amount = 5, asset = ''xA''\<rparr>], inputs = [],
       outputs = [finalized_output], hash_outputs_rangeproofs = None\<rparr>
     = Inl (UnboundLocalError (''local variable '' @ [CHR 0x27] @ ''proof'' @ [CHR 0x27]
              @ '' referenced before assignment''))
   \<and> finalize fixed_crypto
      \<lparr>vout = [\<lparr>script_pubkey = ''s1'', amount = 5, asset = ''xA''\<rparr>,
               \<lparr>script_pubkey = ''s2'', amount = 6, asset = ''xA''\<rparr>], inputs = [],
       outputs = [empty_output\<lparr>unknown := [(nonce_key, ''nonce'')], surjection_proof := Some ''sj''\<rparr>,
                  finalized_output],
       hash_outputs_rangeproofs = None\<rparr>
     = Inl (UnboundLocalError (''local variable '' @ [CHR 0x27] @ ''proof'' @ [CHR 0x27]
              @ '' referenced before assignment''))"
  by code_simp

section \<open>Signature accounting\<close>

lemma sum_list_strict:
  assumes "length xs = length ys" "\<forall>i<length xs. (xs ! i :: nat) \<le> ys ! i" "\<exists>i<length xs. xs ! i < ys ! i"
  shows "sum_list xs < sum_list ys"
  using assms
proof (induction xs ys rule: list_induct2)
  case Nil
  then show ?case by simp
next
  case (Cons x xs y ys)
  have le: "\<forall>i<length xs. xs ! i \<le> ys ! i" using Cons.prems(1) by auto
  have xy: "x \<le> y" using Cons.prems(1) by auto
  have sl: "sum_list xs \<le> sum_list ys"
    using Cons.hyps le by (simp add: sum_list_mono2)
  show ?case
  proof (cases "x < y")
    case True
    then show ?thesis using sl by simp
  next
    case False
    then have "x = y" using xy by simp
    moreover from Cons.prems(2) False have "\<exists>i<length xs. xs ! i < ys ! i"
      by (auto simp: less_Suc_eq_0_disj)
    ultimately show ?thesis using Cons.IH [OF le] by simp
  qed
qed

text \<open>A request reaches the signing step when it decodes and verifies, the sighash policy
  lets it through, matching returns, the user labels what is asked, accepts an unknown
  wallet and confirms the transaction, and (on a confidential network) the finalization
  returns; \<^verbatim>\<open>sign_psbt\<close> then answers what the signing step answers.\<close>

lemma sign_psbt_reaches_signing:
  assumes "decode C (is_liquid R (network m)) encoding stream = Inr p0"
    and "verify H p0 = Inr p"
    and "sighash_policy S (show_screen H) (is_liquid R (network m)) p = Inr (Some sighash)"
    and "parse_psbt K S R m ws p = Inr parsed"
    and "label_unknown_assets K S R H m ws fs p parsed = Inr (True, m1, fs1, wallets, mt)"
    and "None \<in> set (map fst wallets) \<longrightarrow> show_screen H unknown_wallet_prompt"
    and "show_screen H (TransactionScreen (spending_title H wallets) mt)"
    and "(if is_liquid R (network m) then finalize X p else Inr p) = Inr pf"
  shows "sign_psbt C S R K X G H m ws fs stream encoding =
     (case sign_step G wallets sighash encoding pf of
        Inl e \<Rightarrow> Inl e
      | Inr (reply, saved) \<Rightarrow> Inr (Some reply, m1, fs1, saved))"
  using assms by (auto simp add: sign_psbt_def Let_def split: sum.splits)

text \<open>
  C1.  For a request that reaches the signing step of \<^verbatim>\<open>sign_psbt\<close> (it decodes and verifies,
  the sighash policy lets it through, matching returns, the user labels what is asked,
  accepts an unknown wallet and confirms the transaction, the finalization returns) and on
  which the wallets and the keystore sign, leaving the container \<open>p'\<close>: \<^verbatim>\<open>sign_psbt\<close> fails
  with the no-signatures \<^verbatim>\<open>WalletError\<close> when the total number of partial signatures of \<open>p'\<close>
  equals the total counted before signing, and returns the serialized result otherwise; in
  particular it returns the result when the inputs are as many as before, no input lost
  a signature and at least one input gained one.
\<close>

theorem sign_psbt_accounting:
  assumes "decode C (is_liquid R (network m)) encoding stream = Inr p0"
    and "verify H p0 = Inr p"
    and "sighash_policy S (show_screen H) (is_liquid R (network m)) p = Inr (Some sighash)"
    and "parse_psbt K S R m ws p = Inr parsed"
    and "label_unknown_assets K S R H m ws fs p parsed = Inr (True, m1, fs1, wallets, mt)"
    and "None \<in> set (map fst wallets) \<longrightarrow> show_screen H unknown_wallet_prompt"
    and "show_screen H (TransactionScreen (spending_title H wallets) mt)"
    and "(if is_liquid R (network m) then finalize X p else Inr p) = Inr pf"
    and "signed_psbt G wallets sighash pf = Inr (p', saved)"
  shows "sign_psbt C S R K X G H m ws fs stream encoding =
       (if count_sigs p' = count_sigs pf then Inl (WalletError no_signatures_message)
        else Inr (Some (BytesIO (encode_result G encoding p')), m1, fs1, saved))
    \<and> (length (inputs p') = length (inputs pf)
         \<and> (\<forall>i<length (inputs pf). length (partial_sigs (inputs pf ! i)) \<le> length (partial_sigs (inputs p' ! i)))
         \<and> (\<exists>i<length (inputs pf). length (partial_sigs (inputs pf ! i)) < length (partial_sigs (inputs p' ! i)))
         \<longrightarrow> sign_psbt C S R K X G H m ws fs stream encoding
               = Inr (Some (BytesIO (encode_result G encoding p')), m1, fs1, saved))"
proof -
  have r: "sign_psbt C S R K X G H m ws fs stream encoding =
     (case sign_step G wallets sighash encoding pf of
        Inl e \<Rightarrow> Inl e
      | Inr (reply, saved) \<Rightarrow> Inr (Some reply, m1, fs1, saved))"
    by (rule sign_psbt_reaches_signing [OF assms(1-8)])
  have s: "sign_step G wallets sighash encoding pf =
      (if count_sigs p' = count_sigs pf then Inl (WalletError no_signatures_message)
       else Inr (BytesIO (encode_result G encoding p'), saved))"
    using assms(9) by (simp add: sign_step_def Let_def)
  have a: "sign_psbt C S R K X G H m ws fs stream encoding =
       (if count_sigs p' = count_sigs pf then Inl (WalletError no_signatures_message)
        else Inr (Some (BytesIO (encode_result G encoding p')), m1, fs1, saved))"
    unfolding r s by simp
  have c: "count_sigs pf < count_sigs p'"
    if l: "length (inputs p') = length (inputs pf)"
      and le: "\<forall>i<length (inputs pf). length (partial_sigs (inputs pf ! i)) \<le> length (partial_sigs (inputs p' ! i))"
      and lt: "\<exists>i<length (inputs pf). length (partial_sigs (inputs pf ! i)) < length (partial_sigs (inputs p' ! i))"
  proof -
    let ?c = "\<lambda>q. map (\<lambda>inp. length (map fst (partial_sigs inp))) (inputs q)"
    have "sum_list (?c pf) < sum_list (?c p')"
    proof (rule sum_list_strict)
      show "length (?c pf) = length (?c p')" using l by simp
      show "\<forall>i<length (?c pf). ?c pf ! i \<le> ?c p' ! i" using le l by simp
      show "\<exists>i<length (?c pf). ?c pf ! i < ?c p' ! i" using lt l by auto
    qed
    then show ?thesis by (simp add: count_sigs_def)
  qed
  show ?thesis using a c by (metis less_not_refl)
qed

theorem sign_psbt_accounting_witness:
  "sign_psbt (fixed_codec (psbt_of_inputs [owned_input ''Default'' 0 0])) LSIGHASH
       no_prefix_runtime fp_collab fixed_crypto one_key_signer accepting_host main_manager
       [test_wallet ''Default''] Map.empty (BytesIO ''cHNidP8BAA=='') BASE64_STREAM
     = Inr (Some (BytesIO ''pub:sig;''), main_manager, Map.empty, [test_wallet ''Default''])
   \<and> signed_psbt one_key_signer [(Some (test_wallet ''Default''), 100000)] (Some 1)
       (psbt_of_inputs [owned_input ''Default'' 0 0])
     = Inr (psbt_of_inputs [signed_input], [test_wallet ''Default''])
   \<and> count_sigs (psbt_of_inputs [owned_input ''Default'' 0 0]) = 0
   \<and> count_sigs (psbt_of_inputs [signed_input]) = 1
   \<and> length (inputs (psbt_of_inputs [signed_input]))
       = length (inputs (psbt_of_inputs [owned_input ''Default'' 0 0]))
   \<and> list_all (\<lambda>i. length (partial_sigs (inputs (psbt_of_inputs [owned_input ''Default'' 0 0]) ! i))
                      \<le> length (partial_sigs (inputs (psbt_of_inputs [signed_input]) ! i)))
         [0 ..< length (inputs (psbt_of_inputs [owned_input ''Default'' 0 0]))]
   \<and> length (partial_sigs (inputs (psbt_of_inputs [owned_input ''Default'' 0 0]) ! 0))
       < length (partial_sigs (inputs (psbt_of_inputs [signed_input]) ! 0))
   \<and> signed_psbt one_key_signer [(Some (test_wallet ''Default''), 100000)] (Some 1)
       (psbt_of_inputs [signed_input])
     = Inr (psbt_of_inputs [signed_input], [test_wallet ''Default''])
   \<and> sign_psbt (fixed_codec (psbt_of_inputs [signed_input])) LSIGHASH
       no_prefix_runtime fp_collab fixed_crypto one_key_signer accepting_host main_manager
       [test_wallet ''Default''] Map.empty (BytesIO ''cHNidP8BAA=='') BASE64_STREAM
     = Inl (WalletError no_signatures_message)"
proof -
  let ?w = "test_wallet ''Default''"
  let ?ws = "[(Some ?w, 100000 :: int)]"
  let ?p = "psbt_of_inputs [owned_input ''Default'' 0 0]"
  let ?q = "psbt_of_inputs [signed_input]"
  let ?meta = "\<lparr>meta_inputs =
         [\<lparr>mi_asset = Some ''BTC'', mi_label = Some ''Default #0'',
           mi_value = Some 100000, mi_sighash = Some ''ALL''\<rparr>],
       meta_outputs = [], meta_fee = 1000, warnings = [], unknown_assets = []\<rparr>"
  let ?stream = "BytesIO ''cHNidP8BAA==''"
  have nl: "is_liquid no_prefix_runtime (network main_manager) = False"
    by (simp add: no_prefix_runtime_def)
  have yes: "show_screen accepting_host = (\<lambda>scr. True)" by (simp add: accepting_host_def)
  have p1: "decode (fixed_codec ?p) (is_liquid no_prefix_runtime (network main_manager))
      BASE64_STREAM ?stream = Inr ?p" by code_simp
  have p2: "verify accepting_host ?p = Inr ?p" by (simp add: accepting_host_def)
  have p3: "sighash_policy LSIGHASH (show_screen accepting_host)
      (is_liquid no_prefix_runtime (network main_manager)) ?p = Inr (Some (Some 1))"
    by code_simp
  have p4: "parse_psbt fp_collab LSIGHASH no_prefix_runtime main_manager [?w] ?p
      = Inr (?ws, ?meta)" by code_simp
  have p5: "label_unknown_assets fp_collab LSIGHASH no_prefix_runtime accepting_host
      main_manager [?w] Map.empty ?p (?ws, ?meta)
      = Inr (True, main_manager, Map.empty, ?ws, ?meta)"
    by (simp add: label_unknown_assets_def)
  have p6: "None \<in> set (map fst ?ws) \<longrightarrow> show_screen accepting_host unknown_wallet_prompt"
    by simp
  have p7: "show_screen accepting_host (TransactionScreen (spending_title accepting_host ?ws) ?meta)"
    by (simp add: yes)
  have p8: "(if is_liquid no_prefix_runtime (network main_manager)
      then finalize fixed_crypto ?p else Inr ?p) = Inr ?p" by (simp add: nl)
  have p9: "signed_psbt one_key_signer ?ws (Some 1) ?p = Inr (?q, [?w])" by code_simp
  have q1: "decode (fixed_codec ?q) (is_liquid no_prefix_runtime (network main_manager))
      BASE64_STREAM ?stream = Inr ?q" by code_simp
  have q2: "verify accepting_host ?q = Inr ?q" by (simp add: accepting_host_def)
  have q3: "sighash_policy LSIGHASH (show_screen accepting_host)
      (is_liquid no_prefix_runtime (network main_manager)) ?q = Inr (Some (Some 1))"
    by code_simp
  have q4: "parse_psbt fp_collab LSIGHASH no_prefix_runtime main_manager [?w] ?q
      = Inr (?ws, ?meta)" by code_simp
  have q5: "label_unknown_assets fp_collab LSIGHASH no_prefix_runtime accepting_host
      main_manager [?w] Map.empty ?q (?ws, ?meta)
      = Inr (True, main_manager, Map.empty, ?ws, ?meta)"
    by (simp add: label_unknown_assets_def)
  have q8: "(if is_liquid no_prefix_runtime (network main_manager)
      then finalize fixed_crypto ?q else Inr ?q) = Inr ?q" by (simp add: nl)
  have q9: "signed_psbt one_key_signer ?ws (Some 1) ?q = Inr (?q, [?w])" by code_simp
  have c1: "count_sigs ?p = 0" by code_simp
  have c2: "count_sigs ?q = 1" by code_simp
  have e: "encode_result one_key_signer BASE64_STREAM ?q = ''pub:sig;''" by code_simp
  have l: "length (inputs ?q) = length (inputs ?p)" by (simp add: psbt_of_inputs_def)
  have g: "length (partial_sigs (inputs ?p ! 0)) < length (partial_sigs (inputs ?q ! 0))"
    by code_simp
  have k: "list_all (\<lambda>i. length (partial_sigs (inputs ?p ! i))
                         \<le> length (partial_sigs (inputs ?q ! i))) [0 ..< length (inputs ?p)]"
    by code_simp
  have r1: "sign_psbt (fixed_codec ?p) LSIGHASH no_prefix_runtime fp_collab fixed_crypto
      one_key_signer accepting_host main_manager [?w] Map.empty ?stream BASE64_STREAM
      = Inr (Some (BytesIO ''pub:sig;''), main_manager, Map.empty, [?w])"
    using sign_psbt_accounting [OF p1 p2 p3 p4 p5 p6 p7 p8 p9] c1 c2 e by simp
  have r2: "sign_psbt (fixed_codec ?q) LSIGHASH no_prefix_runtime fp_collab fixed_crypto
      one_key_signer accepting_host main_manager [?w] Map.empty ?stream BASE64_STREAM
      = Inl (WalletError no_signatures_message)"
    using sign_psbt_accounting [OF q1 q2 q3 q4 q5 p6 p7 q8 q9] by simp
  show ?thesis using r1 r2 p9 q9 c1 c2 l g k by simp
qed

text \<open>
  The claim's second half as worded does not hold: a keystore whose signing moves the
  signature of the first input to the second raises the count of the second input, the
  total stays at one, and \<^verbatim>\<open>sign_psbt\<close> raises the no-signatures error.
\<close>

theorem sign_psbt_moved_signature_counterexample:
  "signed_psbt moving_signer [(Some (test_wallet ''Default''), 200000)] (Some 1)
       (psbt_of_inputs [signed_input, owned_input ''Default'' 0 1])
     = Inr (psbt_of_inputs [owned_input ''Default'' 0 0,
               (owned_input ''Default'' 0 1)\<lparr>partial_sigs := [(''pub'', ''sig'')]\<rparr>],
            [test_wallet ''Default''])
   \<and> length (partial_sigs (inputs (psbt_of_inputs [signed_input, owned_input ''Default'' 0 1]) ! 1))
       < length (partial_sigs (inputs (psbt_of_inputs [owned_input ''Default'' 0 0,
               (owned_input ''Default'' 0 1)\<lparr>partial_sigs := [(''pub'', ''sig'')]\<rparr>]) ! 1))
   \<and> sign_psbt (fixed_codec (psbt_of_inputs [signed_input, owned_input ''Default'' 0 1]))
       LSIGHASH no_prefix_runtime fp_collab fixed_crypto moving_signer accepting_host
       main_manager [test_wallet ''Default''] Map.empty (BytesIO ''cHNidP8BAA=='') BASE64_STREAM
     = Inl (WalletError no_signatures_message)"
proof -
  let ?w = "test_wallet ''Default''"
  let ?ws = "[(Some ?w, 200000 :: int)]"
  let ?p = "psbt_of_inputs [signed_input, owned_input ''Default'' 0 1]"
  let ?q = "psbt_of_inputs [owned_input ''Default'' 0 0,
               (owned_input ''Default'' 0 1)\<lparr>partial_sigs := [(''pub'', ''sig'')]\<rparr>]"
  let ?meta = "\<lparr>meta_inputs =
         [\<lparr>mi_asset = Some ''BTC'', mi_label = Some ''Default #0'',
           mi_value = Some 100000, mi_sighash = Some ''ALL''\<rparr>,
          \<lparr>mi_asset = Some ''BTC'', mi_label = Some ''Default #1'',
           mi_value = Some 100000, mi_sighash = Some ''ALL''\<rparr>],
       meta_outputs = [], meta_fee = 1000, warnings = [], unknown_assets = []\<rparr>"
  let ?stream = "BytesIO ''cHNidP8BAA==''"
  have nl: "is_liquid no_prefix_runtime (network main_manager) = False"
    by (simp add: no_prefix_runtime_def)
  have yes: "show_screen accepting_host = (\<lambda>scr. True)" by (simp add: accepting_host_def)
  have p1: "decode (fixed_codec ?p) (is_liquid no_prefix_runtime (network main_manager))
      BASE64_STREAM ?stream = Inr ?p" by code_simp
  have p2: "verify accepting_host ?p = Inr ?p" by (simp add: accepting_host_def)
  have p3: "sighash_policy LSIGHASH (show_screen accepting_host)
      (is_liquid no_prefix_runtime (network main_manager)) ?p = Inr (Some (Some 1))"
    by code_simp
  have p4: "parse_psbt fp_collab LSIGHASH no_prefix_runtime main_manager [?w] ?p
      = Inr (?ws, ?meta)" by code_simp
  have p5: "label_unknown_assets fp_collab LSIGHASH no_prefix_runtime accepting_host
      main_manager [?w] Map.empty ?p (?ws, ?meta)
      = Inr (True, main_manager, Map.empty, ?ws, ?meta)"
    by (simp add: label_unknown_assets_def)
  have p6: "None \<in> set (map fst ?ws) \<longrightarrow> show_screen accepting_host unknown_wallet_prompt"
    by simp
  have p7: "show_screen accepting_host (TransactionScreen (spending_title accepting_host ?ws) ?meta)"
    by (simp add: yes)
  have p8: "(if is_liquid no_prefix_runtime (network main_manager)
      then finalize fixed_crypto ?p else Inr ?p) = Inr ?p" by (simp add: nl)
  have s: "signed_psbt moving_signer ?ws (Some 1) ?p = Inr (?q, [?w])" by code_simp
  have g: "length (partial_sigs (inputs ?p ! 1)) < length (partial_sigs (inputs ?q ! 1))"
    by code_simp
  have st: "sign_step moving_signer ?ws (Some 1) BASE64_STREAM ?p
      = Inl (WalletError no_signatures_message)" by code_simp
  have r: "sign_psbt (fixed_codec ?p) LSIGHASH no_prefix_runtime fp_collab fixed_crypto
      moving_signer accepting_host main_manager [?w] Map.empty ?stream BASE64_STREAM
      = Inl (WalletError no_signatures_message)"
    unfolding sign_psbt_reaches_signing [where X = fixed_crypto and G = moving_signer,
        OF p1 p2 p3 p4 p5 p6 p7 p8] st
    by simp
  show ?thesis using s g r by simp
qed

end
